theory Spec2Isabelle
  imports Complex_Main
begin

section \<open>Reward shaping and task sampling of the Sawyer soccer task\<close>

text \<open>
  The development embeds \<^verbatim>\<open>metaworld/envs/mujoco/sawyer_xyz/v2/sawyer_soccer_v2.py\<close>
  (class \<^verbatim>\<open>SawyerSoccerEnvV2\<close>): \<^verbatim>\<open>_gripper_caging_reward\<close>, \<^verbatim>\<open>compute_reward\<close>,
  \<^verbatim>\<open>evaluate_state\<close> and \<^verbatim>\<open>reset_model\<close>.

  Conventions of the embedding.
  \<^item> numpy's float64 scalars are modelled as \<^typ>\<open>real\<close>: arithmetic is exact, there is no
    rounding, overflow or NaN. The one place where the source can divide by zero (the goal-line
    penalty) is written out with numpy's result.
  \<^item> A position returned by the simulator (a numpy array of shape (3,)) is a triple of reals.
    The observation and the action are lists, since their layout (\<^verbatim>\<open>obs[3]\<close>, \<^verbatim>\<open>obs[4:7]\<close>,
    \<^verbatim>\<open>action[-1]\<close>) is part of what the source fixes.
  \<^item> Exceptions are values of type \<open>error\<close>; a function that can raise returns
    \<open>error + 'a\<close>.
  \<^item> An Isabelle name cannot start with an underscore: \<^verbatim>\<open>_gripper_caging_reward\<close> is
    \<open>gripper_caging_reward\<close>, and the attribute \<^verbatim>\<open>_target_pos\<close> is \<open>priv_target_pos\<close>
    (the class also has \<^verbatim>\<open>target_pos\<close>).
\<close>

subsection \<open>numpy vectors\<close>

type_synonym vec3 = "real \<times> real \<times> real"
type_synonym vec2 = "real \<times> real"

text \<open>\<^verbatim>\<open>v[0]\<close>, \<^verbatim>\<open>v[1]\<close>, \<^verbatim>\<open>v[2]\<close> (and \<^verbatim>\<open>v[-1]\<close>, which is \<^verbatim>\<open>v[2]\<close>).\<close>

fun ix0 :: "vec3 \<Rightarrow> real" where
  "ix0 (a, b, c) = a"

fun ix1 :: "vec3 \<Rightarrow> real" where
  "ix1 (a, b, c) = b"

fun ix2 :: "vec3 \<Rightarrow> real" where
  "ix2 (a, b, c) = c"

text \<open>Elementwise \<^verbatim>\<open>a + b\<close>, \<^verbatim>\<open>a - b\<close>, \<^verbatim>\<open>a * b\<close> on arrays of shape (3,).\<close>

fun vadd :: "vec3 \<Rightarrow> vec3 \<Rightarrow> vec3" where
  "vadd (a, b, c) (a', b', c') = (a + a', b + b', c + c')"

fun vsub :: "vec3 \<Rightarrow> vec3 \<Rightarrow> vec3" where
  "vsub (a, b, c) (a', b', c') = (a - a', b - b', c - c')"

fun vmul :: "vec3 \<Rightarrow> vec3 \<Rightarrow> vec3" where
  "vmul (a, b, c) (a', b', c') = (a * a', b * b', c * c')"

text \<open>\<^verbatim>\<open>np.linalg.norm\<close> (the 2-norm) on shape (3,), and on the slices \<^verbatim>\<open>v[:2]\<close>.\<close>

fun linalg_norm :: "vec3 \<Rightarrow> real" where
  "linalg_norm (a, b, c) = sqrt (a\<^sup>2 + b\<^sup>2 + c\<^sup>2)"

fun first2 :: "vec3 \<Rightarrow> vec2" where
  "first2 (a, b, c) = (a, b)"

fun vsub2 :: "vec2 \<Rightarrow> vec2 \<Rightarrow> vec2" where
  "vsub2 (a, b) (a', b') = (a - a', b - b')"

fun linalg_norm2 :: "vec2 \<Rightarrow> real" where
  "linalg_norm2 (a, b) = sqrt (a\<^sup>2 + b\<^sup>2)"

text \<open>\<^verbatim>\<open>np.clip(x, lo, hi)\<close> on a scalar.\<close>

definition clip :: "real \<Rightarrow> real \<Rightarrow> real \<Rightarrow> real" where
  "clip x lo hi = min (max x lo) hi"

datatype error = AssertionError | IndexError | ValueError | TaskNotSet

subsection \<open>The helpers of \<^verbatim>\<open>reward_utils\<close>\<close>

text \<open>
  \<^verbatim>\<open>metaworld/envs/reward_utils.py\<close> is imported by the source file and is not part of it.

  \<^verbatim>\<open>reward_utils.tolerance(x, bounds, margin, sigmoid)\<close> is a parameter of everything below:
  a function of the value, the pair of bounds, the margin and the name of the sigmoid. What
  the reward code needs from it is its range, the contract of the tolerance function
  (a score in the unit interval).
\<close>

type_synonym tolerance_fn = "real \<Rightarrow> real \<times> real \<Rightarrow> real \<Rightarrow> string \<Rightarrow> real"

definition tolerance_contract :: "tolerance_fn \<Rightarrow> bool" where
  "tolerance_contract tol \<longleftrightarrow> (\<forall>x b m s. 0 \<le> tol x b m s \<and> tol x b m s \<le> 1)"

text \<open>
  Modelled from the spec: \<^verbatim>\<open>reward_utils.tolerance\<close> is missing; this is the part of the
  tolerance function that the specification fixes for every shape, the hard indicator:
  1 when the value lies within the bounds and 0 outside of them, which is the whole function when
  the margin is 0. It is the instance at which the theorems below are exercised.
\<close>

definition tolerance_hard :: tolerance_fn where
  "tolerance_hard x b m s = (if fst b \<le> x \<and> x \<le> snd b then 1 else 0)"

text \<open>
  Modelled from the spec: \<^verbatim>\<open>reward_utils.hamacher_product\<close> is missing; the fuzzy
  combinator is \<open>a * b / (a + b - a * b)\<close>, and 0 where the denominator vanishes
  (on the unit square: exactly at \<open>a = b = 0\<close>).
\<close>

definition hamacher_product :: "real \<Rightarrow> real \<Rightarrow> real" where
  "hamacher_product a b =
     (let denominator = a + b - a * b
      in if denominator = 0 then 0 else (a * b) / denominator)"

subsection \<open>The environment\<close>

text \<open>
  The attributes of the environment object that the four methods read or write. The positions
  \<open>tcp_center\<close>, \<open>leftpad\<close> and \<open>rightpad\<close> are what \<^verbatim>\<open>self.tcp_center\<close>,
  \<^verbatim>\<open>self.get_body_com("leftpad")\<close> and \<^verbatim>\<open>self.get_body_com("rightpad")\<close> return at the
  time of the call, \<open>in_contact\<close> is the contact state of gripper and object as the
  simulator has it; all of them belong to the
  base environment and the simulator. \<open>task_is_set\<close> is what the decorator
  \<^verbatim>\<open>_assert_task_is_set\<close> tests. \<open>goal_whole_body_pos\<close> is the entry of
  \<^verbatim>\<open>self.model.body_pos\<close> for the body "goal_whole" and \<open>obj_xyz\<close> the position handed to
  \<^verbatim>\<open>_set_obj_xyz\<close>. \<open>draws\<close> counts the calls of \<^verbatim>\<open>_get_state_rand_vec\<close> so far.
\<close>

record env =
  task_is_set :: bool
  tcp_center :: vec3
  leftpad :: vec3
  rightpad :: vec3
  init_left_pad :: vec3
  init_right_pad :: vec3
  init_tcp :: vec3
  in_contact :: bool
  goal :: vec3
  obj_init_pos :: vec3
  obj_init_angle :: real
  priv_target_pos :: vec3
  target_pos :: vec3
  goal_whole_body_pos :: vec3
  obj_xyz :: vec3
  maxPushDist :: real
  draws :: nat

definition OBJ_RADIUS :: real where
  "OBJ_RADIUS = 0.013"

definition TARGET_RADIUS :: real where
  "TARGET_RADIUS = 0.07"

text \<open>The boxes and the configuration that \<^verbatim>\<open>__init__\<close> sets.\<close>

definition obj_low :: vec3 where
  "obj_low = (0, 0.65, 0.03)"

definition obj_high :: vec3 where
  "obj_high = (0, 0.65, 0.03)"

definition goal_low :: vec3 where
  "goal_low = (0, 0.85, 0.0)"

definition goal_high :: vec3 where
  "goal_high = (0, 0.85, 0.0)"

definition init_config_obj_init_pos :: vec3 where
  "init_config_obj_init_pos = (0, 0.6, 0.03)"

definition init_config_obj_init_angle :: real where
  "init_config_obj_init_angle = 0.3"

definition init_goal :: vec3 where
  "init_goal = (0.0, 0.9, 0.03)"

subsection \<open>\<^verbatim>\<open>_gripper_caging_reward\<close>\<close>

text \<open>
  The method is straight-line code with assertions. Each local variable is a definition of its
  own, in the order of the source, so that the assertions and the theorems can name it; the
  method itself follows, one branch per assertion.
\<close>

definition pad_success_margin :: real where
  "pad_success_margin = 0.05"

definition grip_success_margin :: "real \<Rightarrow> real" where
  "grip_success_margin obj_radius = obj_radius + 0.01"

definition x_z_success_margin :: real where
  "x_z_success_margin = 0.005"

definition delta_object_y_left_pad :: "env \<Rightarrow> vec3 \<Rightarrow> real" where
  "delta_object_y_left_pad e obj_position = ix1 (leftpad e) - ix1 obj_position"

definition delta_object_y_right_pad :: "env \<Rightarrow> vec3 \<Rightarrow> real" where
  "delta_object_y_right_pad e obj_position = ix1 obj_position - ix1 (rightpad e)"

definition right_caging_margin :: "env \<Rightarrow> vec3 \<Rightarrow> real" where
  "right_caging_margin e obj_position =
     \<bar>\<bar>ix1 obj_position - ix1 (init_right_pad e)\<bar> - pad_success_margin\<bar>"

definition left_caging_margin :: "env \<Rightarrow> vec3 \<Rightarrow> real" where
  "left_caging_margin e obj_position =
     \<bar>\<bar>ix1 obj_position - ix1 (init_left_pad e)\<bar> - pad_success_margin\<bar>"

definition right_caging :: "tolerance_fn \<Rightarrow> env \<Rightarrow> vec3 \<Rightarrow> real \<Rightarrow> real" where
  "right_caging tol e obj_position obj_radius =
     tol (delta_object_y_right_pad e obj_position) (obj_radius, pad_success_margin)
       (right_caging_margin e obj_position) ''long_tail''"

definition left_caging :: "tolerance_fn \<Rightarrow> env \<Rightarrow> vec3 \<Rightarrow> real \<Rightarrow> real" where
  "left_caging tol e obj_position obj_radius =
     tol (delta_object_y_left_pad e obj_position) (obj_radius, pad_success_margin)
       (left_caging_margin e obj_position) ''long_tail''"

definition right_gripping :: "tolerance_fn \<Rightarrow> env \<Rightarrow> vec3 \<Rightarrow> real \<Rightarrow> real" where
  "right_gripping tol e obj_position obj_radius =
     tol (delta_object_y_right_pad e obj_position) (obj_radius, grip_success_margin obj_radius)
       (right_caging_margin e obj_position) ''long_tail''"

definition left_gripping :: "tolerance_fn \<Rightarrow> env \<Rightarrow> vec3 \<Rightarrow> real \<Rightarrow> real" where
  "left_gripping tol e obj_position obj_radius =
     tol (delta_object_y_left_pad e obj_position) (obj_radius, grip_success_margin obj_radius)
       (left_caging_margin e obj_position) ''long_tail''"

definition y_caging :: "tolerance_fn \<Rightarrow> env \<Rightarrow> vec3 \<Rightarrow> real \<Rightarrow> real" where
  "y_caging tol e obj_position obj_radius =
     hamacher_product (right_caging tol e obj_position obj_radius)
       (left_caging tol e obj_position obj_radius)"

definition y_gripping :: "tolerance_fn \<Rightarrow> env \<Rightarrow> vec3 \<Rightarrow> real \<Rightarrow> real" where
  "y_gripping tol e obj_position obj_radius =
     hamacher_product (right_gripping tol e obj_position obj_radius)
       (left_gripping tol e obj_position obj_radius)"

definition tcp_xz :: "env \<Rightarrow> vec3" where
  "tcp_xz e = vadd (tcp_center e) (0.0, - ix1 (tcp_center e), 0.0)"

definition obj_position_x_z :: "vec3 \<Rightarrow> vec3" where
  "obj_position_x_z obj_position = vadd obj_position (0.0, - ix1 obj_position, 0.0)"

definition tcp_obj_norm_x_z :: "env \<Rightarrow> vec3 \<Rightarrow> real" where
  "tcp_obj_norm_x_z e obj_position =
     linalg_norm (vsub (tcp_xz e) (obj_position_x_z obj_position))"

definition init_obj_x_z :: "env \<Rightarrow> vec3" where
  "init_obj_x_z e = vadd (obj_init_pos e) (0.0, - ix1 (obj_init_pos e), 0.0)"

definition init_tcp_x_z :: "env \<Rightarrow> vec3" where
  "init_tcp_x_z e = vadd (init_tcp e) (0.0, - ix1 (init_tcp e), 0.0)"

definition tcp_obj_x_z_margin :: "env \<Rightarrow> real" where
  "tcp_obj_x_z_margin e =
     linalg_norm (vsub (init_obj_x_z e) (init_tcp_x_z e)) - x_z_success_margin"

definition x_z_caging :: "tolerance_fn \<Rightarrow> env \<Rightarrow> vec3 \<Rightarrow> real" where
  "x_z_caging tol e obj_position =
     tol (tcp_obj_norm_x_z e obj_position) (0, x_z_success_margin)
       (tcp_obj_x_z_margin e) ''long_tail''"

text \<open>\<^verbatim>\<open>min(max(0, action[-1]), 1)\<close>, for an action that has a last component.\<close>

definition gripper_closed :: "real list \<Rightarrow> real" where
  "gripper_closed action = min (max 0 (last action)) 1"

definition caging :: "tolerance_fn \<Rightarrow> env \<Rightarrow> vec3 \<Rightarrow> real \<Rightarrow> real" where
  "caging tol e obj_position obj_radius =
     hamacher_product (y_caging tol e obj_position obj_radius) (x_z_caging tol e obj_position)"

definition gripping :: "tolerance_fn \<Rightarrow> env \<Rightarrow> vec3 \<Rightarrow> real \<Rightarrow> real" where
  "gripping tol e obj_position obj_radius =
     (if caging tol e obj_position obj_radius > 0.95
      then y_gripping tol e obj_position obj_radius
      else 0.0)"

definition caging_and_gripping :: "tolerance_fn \<Rightarrow> env \<Rightarrow> vec3 \<Rightarrow> real \<Rightarrow> real" where
  "caging_and_gripping tol e obj_position obj_radius =
     (caging tol e obj_position obj_radius + gripping tol e obj_position obj_radius) / 2"

text \<open>\<^verbatim>\<open>assert v >= 0 and v <= 1\<close>.\<close>

definition in_unit :: "real \<Rightarrow> bool" where
  "in_unit v \<longleftrightarrow> v \<ge> 0 \<and> v \<le> 1"

text \<open>
  The assertions in the order of the source (\<open>right_caging\<close> is asserted twice);
  \<^verbatim>\<open>action[-1]\<close> raises IndexError on an empty action.
\<close>

definition gripper_caging_reward ::
  "tolerance_fn \<Rightarrow> env \<Rightarrow> real list \<Rightarrow> vec3 \<Rightarrow> real \<Rightarrow> error + real" where
  "gripper_caging_reward tol e action obj_position obj_radius =
     (if \<not> in_unit (right_caging tol e obj_position obj_radius) then Inl AssertionError
      else if \<not> in_unit (left_caging tol e obj_position obj_radius) then Inl AssertionError
      else if \<not> in_unit (y_caging tol e obj_position obj_radius) then Inl AssertionError
      else if \<not> in_unit (right_caging tol e obj_position obj_radius) then Inl AssertionError
      else if action = [] then Inl IndexError
      else if \<not> in_unit (gripper_closed action) then Inl AssertionError
      else if \<not> in_unit (caging tol e obj_position obj_radius) then Inl AssertionError
      else if \<not> in_unit (gripping tol e obj_position obj_radius) then Inl AssertionError
      else if \<not> in_unit (caging_and_gripping tol e obj_position obj_radius)
        then Inl AssertionError
      else Inr (caging_and_gripping tol e obj_position obj_radius))"

subsection \<open>The argument check of \<^verbatim>\<open>reward_utils.tolerance\<close>\<close>

text \<open>
  Modelled from the spec: \<^verbatim>\<open>reward_utils.tolerance\<close> is missing; the tolerance function is
  given an interval of bounds \<open>(lo, hi)\<close> and a margin that must be at least 0. A call
  with \<open>lo > hi\<close> or with a negative margin is outside of this contract: the helper
  rejects it with a ValueError and returns no score. The score in the unit interval is
  promised for the calls that pass the check.
\<close>

definition tolerance_accepts :: "real \<times> real \<Rightarrow> real \<Rightarrow> bool" where
  "tolerance_accepts b m \<longleftrightarrow> fst b \<le> snd b \<and> 0 \<le> m"

definition tolerance_spec_contract :: "tolerance_fn \<Rightarrow> bool" where
  "tolerance_spec_contract tol \<longleftrightarrow>
     (\<forall>x b m s. tolerance_accepts b m \<longrightarrow> 0 \<le> tol x b m s \<and> tol x b m s \<le> 1)"

text \<open>
  \<^verbatim>\<open>_gripper_caging_reward\<close> with the argument check at each of its five calls of the
  tolerance function, in the order of the source: the four per-side calls come before the
  first assertion, the call for the x/z alignment after the third. \<open>gripper_caging_reward\<close>
  above is the method for a tolerance function that answers every call.
\<close>

definition gripper_caging_reward_checked ::
  "tolerance_fn \<Rightarrow> env \<Rightarrow> real list \<Rightarrow> vec3 \<Rightarrow> real \<Rightarrow> error + real" where
  "gripper_caging_reward_checked tol e action obj_position obj_radius =
     (if \<not> tolerance_accepts (obj_radius, pad_success_margin)
              (right_caging_margin e obj_position) then Inl ValueError
      else if \<not> tolerance_accepts (obj_radius, pad_success_margin)
              (left_caging_margin e obj_position) then Inl ValueError
      else if \<not> tolerance_accepts (obj_radius, grip_success_margin obj_radius)
              (right_caging_margin e obj_position) then Inl ValueError
      else if \<not> tolerance_accepts (obj_radius, grip_success_margin obj_radius)
              (left_caging_margin e obj_position) then Inl ValueError
      else if \<not> in_unit (right_caging tol e obj_position obj_radius) then Inl AssertionError
      else if \<not> in_unit (left_caging tol e obj_position obj_radius) then Inl AssertionError
      else if \<not> in_unit (y_caging tol e obj_position obj_radius) then Inl AssertionError
      else if \<not> tolerance_accepts (0, x_z_success_margin) (tcp_obj_x_z_margin e)
        then Inl ValueError
      else if \<not> in_unit (right_caging tol e obj_position obj_radius) then Inl AssertionError
      else if action = [] then Inl IndexError
      else if \<not> in_unit (gripper_closed action) then Inl AssertionError
      else if \<not> in_unit (caging tol e obj_position obj_radius) then Inl AssertionError
      else if \<not> in_unit (gripping tol e obj_position obj_radius) then Inl AssertionError
      else if \<not> in_unit (caging_and_gripping tol e obj_position obj_radius)
        then Inl AssertionError
      else Inr (caging_and_gripping tol e obj_position obj_radius))"

subsection \<open>\<^verbatim>\<open>compute_reward\<close>\<close>

text \<open>\<^verbatim>\<open>obs[4:7]\<close> of an observation with at least seven entries.\<close>

definition obs_obj :: "real list \<Rightarrow> vec3" where
  "obs_obj obs = (obs ! 4, obs ! 5, obs ! 6)"

definition x_scaling :: vec3 where
  "x_scaling = (3.0, 1.0, 1.0)"

definition target_to_obj :: "env \<Rightarrow> vec3 \<Rightarrow> real" where
  "target_to_obj e obj = linalg_norm (vmul (vsub obj (priv_target_pos e)) x_scaling)"

definition target_to_obj_init :: "env \<Rightarrow> vec3 \<Rightarrow> real" where
  "target_to_obj_init e obj = linalg_norm (vmul (vsub obj (obj_init_pos e)) x_scaling)"

text \<open>The first assignment of \<^verbatim>\<open>in_place\<close>.\<close>

definition in_place_tolerance :: "tolerance_fn \<Rightarrow> env \<Rightarrow> vec3 \<Rightarrow> real" where
  "in_place_tolerance tol e obj =
     tol (target_to_obj e obj) (0, TARGET_RADIUS) (target_to_obj_init e obj) ''long_tail''"

definition goal_line :: "env \<Rightarrow> real" where
  "goal_line e = ix1 (priv_target_pos e) - 0.1"

text \<open>The condition of the \<^verbatim>\<open>if\<close> that follows.\<close>

definition past_goal_line :: "env \<Rightarrow> vec3 \<Rightarrow> bool" where
  "past_goal_line e obj \<longleftrightarrow>
     ix1 obj > goal_line e \<and> \<bar>ix0 obj - ix0 (priv_target_pos e)\<bar> > 0.10"

text \<open>
  The body of that \<^verbatim>\<open>if\<close>. It runs only where \<^verbatim>\<open>obj[1] > goal_line\<close>, so its numerator is
  positive. If \<^verbatim>\<open>1 - goal_line\<close> is zero, numpy's division yields \<open>+inf\<close> with a warning and
  no exception, \<^verbatim>\<open>in_place\<close> minus that is \<open>-inf\<close>, and \<^verbatim>\<open>np.clip\<close> returns 0.0; a division
  by zero in HOL would yield 0 instead, so this case is a branch of its own.
\<close>

definition goal_line_penalised :: "tolerance_fn \<Rightarrow> env \<Rightarrow> vec3 \<Rightarrow> real" where
  "goal_line_penalised tol e obj =
     (if 1 - goal_line e = 0 then 0.0
      else clip (in_place_tolerance tol e obj
                   - 2 * ((ix1 obj - goal_line e) / (1 - goal_line e))) 0.0 1.0)"

text \<open>The value of \<^verbatim>\<open>in_place\<close> after the \<^verbatim>\<open>if\<close>.\<close>

definition in_place :: "tolerance_fn \<Rightarrow> env \<Rightarrow> vec3 \<Rightarrow> real" where
  "in_place tol e obj =
     (if past_goal_line e obj then goal_line_penalised tol e obj
      else in_place_tolerance tol e obj)"

text \<open>
  An observation with fewer than seven entries makes numpy raise: \<^verbatim>\<open>obs[3]\<close> is out of range
  below four entries; with four or six entries \<^verbatim>\<open>obs[4:7]\<close> has shape (0,) or (2,), which does
  not broadcast against a position; with five entries it has shape (1,), which broadcasts, and
  \<^verbatim>\<open>obj[1]\<close> is out of range. The returned tuple is
  \<^verbatim>\<open>(reward, tcp_to_obj, tcp_opened, norm(obj - _target_pos), object_grasped, in_place)\<close>.
\<close>

definition compute_reward ::
  "tolerance_fn \<Rightarrow> env \<Rightarrow> real list \<Rightarrow> real list
     \<Rightarrow> error + (real \<times> real \<times> real \<times> real \<times> real \<times> real)" where
  "compute_reward tol e action obs =
     (if length obs < 4 then Inl IndexError
      else if length obs = 4 \<or> length obs = 6 then Inl ValueError
      else if length obs = 5 then Inl IndexError
      else
        (let obj = obs_obj obs;
             tcp_opened = obs ! 3;
             tcp_to_obj = linalg_norm (vsub obj (tcp_center e))
         in case gripper_caging_reward tol e action obj OBJ_RADIUS of
              Inl err \<Rightarrow> Inl err
            | Inr object_grasped \<Rightarrow>
                (let reward = (3 * object_grasped) + (6.5 * in_place tol e obj);
                     reward = (if target_to_obj e obj < TARGET_RADIUS then 10.0 else reward)
                 in Inr (reward, tcp_to_obj, tcp_opened,
                         linalg_norm (vsub obj (priv_target_pos e)),
                         object_grasped, in_place tol e obj))))"

subsection \<open>\<^verbatim>\<open>evaluate_state\<close>\<close>

text \<open>The dictionary \<^verbatim>\<open>info\<close>, and \<^verbatim>\<open>float\<close> of a truth value.\<close>

record info =
  success :: real
  near_object :: real
  grasp_success :: real
  grasp_reward :: real
  in_place_reward :: real
  obj_to_target :: real
  unscaled_reward :: real

definition float_of_bool :: "bool \<Rightarrow> real" where
  "float_of_bool b = (if b then 1.0 else 0.0)"

text \<open>
  The truth value of \<^verbatim>\<open>self.touching_object\<close>, the first operand of the \<^verbatim>\<open>and\<close> in
  \<^verbatim>\<open>grasp_success\<close>. On the base environment \<^verbatim>\<open>touching_object(self, object_geom_id)\<close> is
  a method, and the source reads the attribute without calling it: the operand is the bound
  method, which Python takes as true, whatever the contact state \<open>in_contact\<close> is.
\<close>

definition touching_object :: "env \<Rightarrow> bool" where
  "touching_object e = True"

definition evaluate_state ::
  "tolerance_fn \<Rightarrow> env \<Rightarrow> real list \<Rightarrow> real list \<Rightarrow> error + (real \<times> info)" where
  "evaluate_state tol e obs action =
     (if \<not> task_is_set e then Inl TaskNotSet
      else case compute_reward tol e action obs of
             Inl err \<Rightarrow> Inl err
           | Inr (reward, tcp_to_obj, tcp_opened, target_to_obj_v, object_grasped, in_place_v) \<Rightarrow>
               Inr (reward,
                    \<lparr>success = float_of_bool (target_to_obj_v \<le> 0.07),
                     near_object = float_of_bool (tcp_to_obj \<le> 0.03),
                     grasp_success = float_of_bool
                       (touching_object e \<and> tcp_opened > 0
                          \<and> ix2 (obs_obj obs) - 0.02 > ix2 (obj_init_pos e)),
                     grasp_reward = object_grasped,
                     in_place_reward = in_place_v,
                     obj_to_target = target_to_obj_v,
                     unscaled_reward = reward\<rparr>))"

subsection \<open>\<^verbatim>\<open>reset_model\<close>\<close>

text \<open>
  A random vector is the six-component array drawn from the box
  \<^verbatim>\<open>Box(hstack((obj_low, goal_low)), hstack((obj_high, goal_high)))\<close>: a pair of positions, the
  object's half and the goal's half. For a vector \<open>goal_pos\<close> of this shape, \<^verbatim>\<open>goal_pos[:2]\<close>
  is \<open>first2 (fst goal_pos)\<close> and \<^verbatim>\<open>goal_pos[3:]\<close> is \<open>snd goal_pos\<close>.

  \<^verbatim>\<open>_get_state_rand_vec\<close> belongs to the base environment; the random source is the sequence
  of the vectors it returns, and a call takes the next one.
\<close>

type_synonym rand_vec = "vec3 \<times> vec3"

fun vle :: "vec3 \<Rightarrow> vec3 \<Rightarrow> bool" where
  "vle (a, b, c) (a', b', c') \<longleftrightarrow> a \<le> a' \<and> b \<le> b' \<and> c \<le> c'"

definition in_box :: "rand_vec \<Rightarrow> rand_vec \<Rightarrow> rand_vec \<Rightarrow> bool" where
  "in_box low high v \<longleftrightarrow>
     vle (fst low) (fst v) \<and> vle (fst v) (fst high) \<and> vle (snd low) (snd v) \<and> vle (snd v) (snd high)"

definition random_reset_space_low :: rand_vec where
  "random_reset_space_low = (obj_low, goal_low)"

definition random_reset_space_high :: rand_vec where
  "random_reset_space_high = (obj_high, goal_high)"

definition get_state_rand_vec :: "(nat \<Rightarrow> rand_vec) \<Rightarrow> env \<Rightarrow> rand_vec \<times> env" where
  "get_state_rand_vec rand e = (rand (draws e), e\<lparr>draws := Suc (draws e)\<rparr>)"

text \<open>
  The \<^verbatim>\<open>while\<close> loop, entered with the current \<open>goal_pos\<close> and environment. The source sets
  no bound on the number of iterations; a loop that never ends is the value \<open>None\<close>.
\<close>

partial_function (option) resample ::
  "(nat \<Rightarrow> rand_vec) \<Rightarrow> rand_vec \<Rightarrow> env \<Rightarrow> (rand_vec \<times> env) option" where
  "resample rand goal_pos e =
     (if linalg_norm2 (vsub2 (first2 (fst goal_pos)) (first2 (priv_target_pos e))) < 0.15
      then resample rand (fst (get_state_rand_vec rand e))
             ((snd (get_state_rand_vec rand e))
                \<lparr>priv_target_pos := snd (fst (get_state_rand_vec rand e))\<rparr>)
      else Some (goal_pos, e))"

text \<open>
  \<^verbatim>\<open>_reset_hand\<close>, \<^verbatim>\<open>_set_obj_xyz\<close> and \<^verbatim>\<open>_get_obs\<close> belong to the base environment: they move
  the arm, place the ball and read the observation. The model keeps what \<^verbatim>\<open>reset_model\<close>
  itself assigns, and returns the environment instead of the observation.
\<close>

definition reset_model :: "(nat \<Rightarrow> rand_vec) \<Rightarrow> env \<Rightarrow> env option" where
  "reset_model rand e =
     (let e1 = e\<lparr>priv_target_pos := goal e\<rparr>;
          e2 = e1\<lparr>obj_init_angle := init_config_obj_init_angle\<rparr>;
          goal_pos = fst (get_state_rand_vec rand e2);
          e3 = (snd (get_state_rand_vec rand e2))\<lparr>priv_target_pos := snd goal_pos\<rparr>
      in case resample rand goal_pos e3 of
           None \<Rightarrow> None
         | Some (goal_pos, e4) \<Rightarrow>
             (let e5 = e4\<lparr>target_pos := priv_target_pos e4\<rparr>;
                  e6 = e5\<lparr>obj_init_pos :=
                         (ix0 (fst goal_pos), ix1 (fst goal_pos), ix2 (obj_init_pos e5))\<rparr>;
                  e7 = e6\<lparr>goal_whole_body_pos := priv_target_pos e6\<rparr>;
                  e8 = e7\<lparr>obj_xyz := obj_init_pos e7\<rparr>;
                  e9 = e8\<lparr>maxPushDist :=
                         linalg_norm2 (vsub2 (first2 (obj_init_pos e8))
                                             (first2 (priv_target_pos e8)))\<rparr>
              in Some e9))"

subsection \<open>Concrete states\<close>

text \<open>
  A state of an episode under the configured boxes: the ball was placed at
  \<open>(0, 0.65, 0.03)\<close>, the goal at \<open>(0, 0.85, 0)\<close>, and the gripper sits behind the ball.
\<close>

definition env_demo :: env where
  "env_demo =
     \<lparr>task_is_set = True,
      tcp_center = (0, 0.56, 0.05),
      leftpad = (0, 0.60, 0.05),
      rightpad = (0, 0.52, 0.05),
      init_left_pad = (0, 0.60, 0.05),
      init_right_pad = (0, 0.52, 0.05),
      init_tcp = (0, 0.56, 0.05),
      in_contact = False,
      goal = init_goal,
      obj_init_pos = (0, 0.65, 0.03),
      obj_init_angle = 0.3,
      priv_target_pos = (0, 0.85, 0),
      target_pos = (0, 0.85, 0),
      goal_whole_body_pos = (0, 0.85, 0),
      obj_xyz = (0, 0.65, 0.03),
      maxPushDist = 0.2,
      draws = 1\<rparr>"

text \<open>
  The environment before the first reset, with the gripper as above: \<open>obj_init_pos\<close> and
  \<open>goal\<close> as \<^verbatim>\<open>__init__\<close> sets them, no vector drawn yet; the target fields, which
  \<^verbatim>\<open>reset_model\<close> overwrites, hold the goal.
\<close>

definition env_init :: env where
  "env_init =
     env_demo\<lparr>obj_init_pos := init_config_obj_init_pos,
              priv_target_pos := init_goal,
              target_pos := init_goal,
              goal_whole_body_pos := init_goal,
              obj_xyz := init_config_obj_init_pos,
              maxPushDist := 0,
              draws := 0\<rparr>"

text \<open>An action, and observations with the ball at a given position (gripper opening 1).\<close>

definition action_demo :: "real list" where
  "action_demo = [0, 0, 0, 1]"

definition obs_with_ball :: "vec3 \<Rightarrow> real list" where
  "obs_with_ball p = [0, 0.56, 0.05, 1, ix0 p, ix1 p, ix2 p]"

text \<open>The random source of the configured boxes, which hold one vector only.\<close>

definition rand_configured :: "nat \<Rightarrow> rand_vec" where
  "rand_configured n = (obj_low, goal_low)"

text \<open>A state in which both pads bracket the ball at its initial position and touch it.\<close>

definition env_caged :: env where
  "env_caged =
     env_demo\<lparr>tcp_center := (0, 0.65, 0.03),
              leftpad := (0, 0.67, 0.03),
              rightpad := (0, 0.63, 0.03),
              in_contact := True\<rparr>"

text \<open>
  A state of an episode in which the end effector started level with the ball: their initial
  positions differ along the second axis only.
\<close>

definition env_level :: env where
  "env_level = env_demo\<lparr>init_tcp := (0, 0.56, 0.03)\<rparr>"

text \<open>
  A random source whose vectors have other heights than the configured boxes: 0.4 for the
  object and 0.5 for the goal.
\<close>

definition rand_raised :: "nat \<Rightarrow> rand_vec" where
  "rand_raised n = ((0, 0.65, 0.4), (0, 0.85, 0.5))"

section \<open>The fuzzy combinator\<close>

lemma unit_mult_le:
  assumes "0 \<le> a" "a \<le> 1" "0 \<le> (b::real)"
  shows "a * b \<le> b"
  using mult_right_mono[OF assms(2) assms(3)] by simp

lemma hamacher_denominator_zero:
  assumes "0 \<le> (a::real)" "a \<le> 1" "0 \<le> (b::real)" "b \<le> 1"
  shows "a + b - a * b = 0 \<longleftrightarrow> a = 0 \<and> b = 0"
proof
  assume h: "a + b - a * b = 0"
  have "a * b \<le> b" using unit_mult_le[of a b] assms by blast
  then have "a \<le> 0" using h by linarith
  then have "a = 0" using assms by simp
  with h show "a = 0 \<and> b = 0" by simp
qed simp

lemma hamacher_denominator_pos:
  assumes "0 \<le> (a::real)" "a \<le> 1" "0 \<le> (b::real)" "b \<le> 1" "a \<noteq> 0 \<or> b \<noteq> 0"
  shows "0 < a + b - a * b"
proof -
  have "a * b \<le> b" using unit_mult_le[of a b] assms by blast
  then have "0 \<le> a + b - a * b" using assms by linarith
  moreover have "a + b - a * b \<noteq> 0"
    using hamacher_denominator_zero[OF assms(1-4)] assms(5) by blast
  ultimately show ?thesis by linarith
qed

lemma hamacher_range:
  assumes "0 \<le> a" "a \<le> 1" "0 \<le> b" "b \<le> 1"
  shows "0 \<le> hamacher_product a b \<and> hamacher_product a b \<le> 1"
proof (cases "a = 0 \<and> b = 0")
  case True
  then show ?thesis by (simp add: hamacher_product_def)
next
  case False
  then have d: "0 < a + b - a * b" using hamacher_denominator_pos assms by blast
  have ab: "a * b \<le> b" using unit_mult_le[of a b] assms by blast
  have "a * b \<le> a + b - a * b"
  proof -
    have "b * a \<le> a" using unit_mult_le[of b a] assms by blast
    then have "a * b \<le> a" by (simp add: mult.commute)
    with ab show ?thesis by linarith
  qed
  moreover have "0 \<le> a * b" using assms by simp
  ultimately show ?thesis using d by (simp add: hamacher_product_def Let_def)
qed

lemma hamacher_zero_right: "hamacher_product a 0 = 0"
  by (simp add: hamacher_product_def)

lemma hamacher_zero_left: "hamacher_product 0 b = 0"
  by (simp add: hamacher_product_def)

lemma hamacher_one_one: "hamacher_product 1 1 = 1"
  by (simp add: hamacher_product_def)

lemma hamacher_commute: "hamacher_product a b = hamacher_product b a"
  by (simp add: hamacher_product_def Let_def add.commute mult.commute)

lemma hamacher_mono_left:
  assumes "0 \<le> a" "a \<le> a'" "a' \<le> 1" "0 \<le> b" "b \<le> 1"
  shows "hamacher_product a b \<le> hamacher_product a' b"
proof (cases "a = 0 \<and> b = 0")
  case True
  have "0 \<le> hamacher_product a' b" using hamacher_range[of a' b] assms by simp
  with True show ?thesis by (simp add: hamacher_product_def)
next
  case False
  have a1: "a \<le> 1" and a'0: "0 \<le> a'" using assms by simp_all
  have d: "0 < a + b - a * b" using hamacher_denominator_pos[of a b] assms a1 False by blast
  have "a' \<noteq> 0 \<or> b \<noteq> 0" using False assms by auto
  then have d': "0 < a' + b - a' * b"
    using hamacher_denominator_pos[of a' b] assms a'0 by blast
  have "a * (b * b) \<le> a' * (b * b)" using assms by (simp add: mult_right_mono)
  then have "(a * b) * (a' + b - a' * b) \<le> (a' * b) * (a + b - a * b)"
    by (simp add: algebra_simps)
  then have "(a * b) / (a + b - a * b) \<le> (a' * b) / (a' + b - a' * b)"
    using d d' by (simp add: field_simps)
  then show ?thesis using d d' by (simp add: hamacher_product_def Let_def)
qed

text \<open>
  Claim C8. On the unit square the Hamacher product stays in the unit interval, is 0 as soon
  as one argument is 0 (also at \<open>a = b = 0\<close>, where the denominator vanishes), is 1 at
  \<open>(1, 1)\<close>, is symmetric, and is monotonic non-decreasing in each argument.
\<close>

theorem hamacher_product_fuzzy_conjunction:
  assumes "0 \<le> a" "a \<le> 1" "0 \<le> b" "b \<le> 1" "a \<le> a'" "a' \<le> 1" "b \<le> b'" "b' \<le> 1"
  shows "0 \<le> hamacher_product a b \<and> hamacher_product a b \<le> 1
       \<and> hamacher_product a 0 = 0 \<and> hamacher_product 0 b = 0 \<and> hamacher_product 0 0 = 0
       \<and> hamacher_product 1 1 = 1
       \<and> hamacher_product a b = hamacher_product b a
       \<and> hamacher_product a b \<le> hamacher_product a' b
       \<and> hamacher_product a b \<le> hamacher_product a b'"
proof -
  have "hamacher_product b a \<le> hamacher_product b' a"
    using hamacher_mono_left[of b b' a] assms by simp
  then have "hamacher_product a b \<le> hamacher_product a b'"
    by (simp add: hamacher_commute[of a])
  moreover have "hamacher_product a b \<le> hamacher_product a' b"
    using hamacher_mono_left[of a a' b] assms by simp
  moreover have "hamacher_product a b = hamacher_product b a"
    by (rule hamacher_commute)
  ultimately show ?thesis
    using hamacher_range[OF assms(1-4)]
    by (simp add: hamacher_zero_right hamacher_zero_left hamacher_one_one)
qed

theorem hamacher_product_fuzzy_conjunction_witness:
  "(0::real) \<le> 1/2 \<and> (1/2::real) \<le> 1 \<and> (1/2::real) \<le> 3/4 \<and> (3/4::real) \<le> 1
   \<and> 0 \<le> hamacher_product (1/2) (1/2) \<and> hamacher_product (1/2) (1/2) \<le> 1
   \<and> hamacher_product (1/2) 0 = 0 \<and> hamacher_product 0 (1/2) = 0
   \<and> hamacher_product 1 1 = 1
   \<and> hamacher_product (1/2) (1/2) \<le> hamacher_product 1 (1/2)
   \<and> hamacher_product (1/2) (1/2) \<le> hamacher_product (1/2) (3/4)"
  using hamacher_product_fuzzy_conjunction[of "1/2" "1/2" 1 "3/4"] by simp

section \<open>The caging reward\<close>

lemma tolerance_contract_in_unit: "tolerance_contract tol \<Longrightarrow> in_unit (tol x b m s)"
  unfolding tolerance_contract_def in_unit_def by blast

lemma tolerance_contract_hard: "tolerance_contract tolerance_hard"
  by (simp add: tolerance_contract_def tolerance_hard_def)

lemma in_unit_hamacher: "in_unit a \<Longrightarrow> in_unit b \<Longrightarrow> in_unit (hamacher_product a b)"
  using hamacher_range[of a b] by (simp add: in_unit_def)

lemma in_unit_gripper_closed: "in_unit (gripper_closed action)"
  by (simp add: in_unit_def gripper_closed_def)

lemma in_unit_zero: "in_unit 0"
  by (simp add: in_unit_def)

lemma in_unit_mean: "in_unit a \<Longrightarrow> in_unit b \<Longrightarrow> in_unit ((a + b) / 2)"
  by (simp add: in_unit_def)

lemma in_unit_sides:
  assumes "tolerance_contract tol"
  shows "in_unit (right_caging tol e p r)" and "in_unit (left_caging tol e p r)"
    and "in_unit (right_gripping tol e p r)" and "in_unit (left_gripping tol e p r)"
    and "in_unit (x_z_caging tol e p)"
  using assms
  by (simp_all add: right_caging_def left_caging_def right_gripping_def left_gripping_def
      x_z_caging_def tolerance_contract_in_unit)

lemma in_unit_combined:
  assumes "tolerance_contract tol"
  shows "in_unit (y_caging tol e p r)" and "in_unit (y_gripping tol e p r)"
    and "in_unit (caging tol e p r)" and "in_unit (gripping tol e p r)"
    and "in_unit (caging_and_gripping tol e p r)"
proof -
  show yc: "in_unit (y_caging tol e p r)"
    by (simp add: y_caging_def in_unit_hamacher in_unit_sides[OF assms])
  show yg: "in_unit (y_gripping tol e p r)"
    by (simp add: y_gripping_def in_unit_hamacher in_unit_sides[OF assms])
  show c: "in_unit (caging tol e p r)"
    by (simp add: caging_def in_unit_hamacher yc in_unit_sides[OF assms])
  show g: "in_unit (gripping tol e p r)"
    by (simp add: gripping_def yg in_unit_zero)
  show "in_unit (caging_and_gripping tol e p r)"
    by (simp add: caging_and_gripping_def in_unit_mean c g)
qed

lemma gripper_caging_reward_returns:
  assumes "tolerance_contract tol" "action \<noteq> []"
  shows "gripper_caging_reward tol e action p r = Inr (caging_and_gripping tol e p r)"
  using assms
  by (simp add: gripper_caging_reward_def in_unit_sides in_unit_combined in_unit_gripper_closed)

text \<open>
  Claim C3. Under the contract of the tolerance function, and for an action that has a last
  component, the caging reward returns \<open>(caging + gripping) / 2\<close>, where \<open>gripping\<close> is
  \<open>y_gripping\<close>, the Hamacher product of the two per-side gripping tolerances, in the branch
  \<open>caging > 0.95\<close> and 0 in the other branch.
\<close>

theorem gripper_caging_reward_value:
  assumes "tolerance_contract tol" "action \<noteq> []"
  shows "gripper_caging_reward tol e action obj_position obj_radius =
           Inr ((caging tol e obj_position obj_radius
                 + (if caging tol e obj_position obj_radius > 0.95
                    then hamacher_product (right_gripping tol e obj_position obj_radius)
                           (left_gripping tol e obj_position obj_radius)
                    else 0)) / 2)"
  using gripper_caging_reward_returns[OF assms]
  by (simp add: caging_and_gripping_def gripping_def y_gripping_def)

subsection \<open>With the argument check of the tolerance function\<close>

lemma tolerance_spec_contract_in_unit:
  "tolerance_spec_contract tol \<Longrightarrow> tolerance_accepts b m \<Longrightarrow> in_unit (tol x b m s)"
  unfolding tolerance_spec_contract_def in_unit_def by blast

lemma tolerance_spec_contract_hard: "tolerance_spec_contract tolerance_hard"
  by (simp add: tolerance_spec_contract_def tolerance_hard_def)

text \<open>
  Which of the five calls pass the check: the per-side margins are absolute values, the
  gripping bounds are \<open>(r, r + 0.01)\<close>; the caging bounds \<open>(r, 0.05)\<close> need \<open>r \<le> 0.05\<close>, and
  the margin of the x/z alignment is the initial x/z distance minus 0.005.
\<close>

lemma per_side_calls_accepted:
  "tolerance_accepts (r, pad_success_margin) (right_caging_margin e p) \<longleftrightarrow> r \<le> 0.05"
  "tolerance_accepts (r, pad_success_margin) (left_caging_margin e p) \<longleftrightarrow> r \<le> 0.05"
  "tolerance_accepts (r, grip_success_margin r) (right_caging_margin e p)"
  "tolerance_accepts (r, grip_success_margin r) (left_caging_margin e p)"
  by (simp_all add: tolerance_accepts_def pad_success_margin_def grip_success_margin_def
      right_caging_margin_def left_caging_margin_def)

lemma init_x_z_distance:
  "linalg_norm (vsub (init_obj_x_z e) (init_tcp_x_z e)) =
     sqrt ((ix0 (obj_init_pos e) - ix0 (init_tcp e))\<^sup>2
           + (ix2 (obj_init_pos e) - ix2 (init_tcp e))\<^sup>2)"
  by (cases "obj_init_pos e"; cases "init_tcp e") (simp add: init_obj_x_z_def init_tcp_x_z_def)

lemma x_z_call_accepted:
  "tolerance_accepts (0, x_z_success_margin) (tcp_obj_x_z_margin e) \<longleftrightarrow>
     0.005 \<le> sqrt ((ix0 (obj_init_pos e) - ix0 (init_tcp e))\<^sup>2
                    + (ix2 (obj_init_pos e) - ix2 (init_tcp e))\<^sup>2)"
  by (simp add: tolerance_accepts_def tcp_obj_x_z_margin_def x_z_success_margin_def
      init_x_z_distance)

lemma in_unit_sides_accepted:
  assumes "tolerance_spec_contract tol" "r \<le> 0.05"
  shows "in_unit (right_caging tol e p r)" and "in_unit (left_caging tol e p r)"
    and "in_unit (right_gripping tol e p r)" and "in_unit (left_gripping tol e p r)"
    and "in_unit (y_caging tol e p r)" and "in_unit (y_gripping tol e p r)"
proof -
  have ar: "tolerance_accepts (r, pad_success_margin) (right_caging_margin e p)"
    and al: "tolerance_accepts (r, pad_success_margin) (left_caging_margin e p)"
    using assms(2) by (simp_all add: per_side_calls_accepted)
  show rc: "in_unit (right_caging tol e p r)"
    unfolding right_caging_def by (rule tolerance_spec_contract_in_unit[OF assms(1) ar])
  show lc: "in_unit (left_caging tol e p r)"
    unfolding left_caging_def by (rule tolerance_spec_contract_in_unit[OF assms(1) al])
  show rg: "in_unit (right_gripping tol e p r)"
    unfolding right_gripping_def
    by (rule tolerance_spec_contract_in_unit[OF assms(1)]) (rule per_side_calls_accepted)
  show lg: "in_unit (left_gripping tol e p r)"
    unfolding left_gripping_def
    by (rule tolerance_spec_contract_in_unit[OF assms(1)]) (rule per_side_calls_accepted)
  show "in_unit (y_caging tol e p r)"
    unfolding y_caging_def by (rule in_unit_hamacher[OF rc lc])
  show "in_unit (y_gripping tol e p r)"
    unfolding y_gripping_def by (rule in_unit_hamacher[OF rg lg])
qed

lemma in_unit_combined_accepted:
  assumes "tolerance_spec_contract tol" "r \<le> 0.05"
    and "tolerance_accepts (0, x_z_success_margin) (tcp_obj_x_z_margin e)"
  shows "in_unit (x_z_caging tol e p)" and "in_unit (caging tol e p r)"
    and "in_unit (gripping tol e p r)" and "in_unit (caging_and_gripping tol e p r)"
proof -
  show x: "in_unit (x_z_caging tol e p)"
    unfolding x_z_caging_def by (rule tolerance_spec_contract_in_unit[OF assms(1,3)])
  show c: "in_unit (caging tol e p r)"
    unfolding caging_def
    by (rule in_unit_hamacher[OF in_unit_sides_accepted(5)[OF assms(1,2)] x])
  show g: "in_unit (gripping tol e p r)"
    by (simp add: gripping_def in_unit_sides_accepted(6)[OF assms(1,2)] in_unit_zero)
  show "in_unit (caging_and_gripping tol e p r)"
    unfolding caging_and_gripping_def by (rule in_unit_mean[OF c g])
qed

text \<open>
  Under the contract, the method raises ValueError where a call is rejected, and where all
  calls pass it is the method for a tolerance function that answers every call.
\<close>

lemma gripper_caging_reward_checked_eq:
  assumes "tolerance_spec_contract tol"
  shows "gripper_caging_reward_checked tol e action p r =
           (if r \<le> 0.05
               \<and> tolerance_accepts (0, x_z_success_margin) (tcp_obj_x_z_margin e)
            then (if action = [] then Inl IndexError
                  else Inr (caging_and_gripping tol e p r))
            else Inl ValueError)"
proof (cases "r \<le> 0.05")
  case False
  then show ?thesis
    by (simp add: gripper_caging_reward_checked_def per_side_calls_accepted)
next
  case r: True
  show ?thesis
  proof (cases "tolerance_accepts (0, x_z_success_margin) (tcp_obj_x_z_margin e)")
    case False
    with r show ?thesis
      by (simp add: gripper_caging_reward_checked_def per_side_calls_accepted
          in_unit_sides_accepted[OF assms r])
  next
    case True
    with r show ?thesis
      by (simp add: gripper_caging_reward_checked_def per_side_calls_accepted
          in_unit_sides_accepted[OF assms r] in_unit_combined_accepted[OF assms r True]
          in_unit_gripper_closed)
  qed
qed

text \<open>Where all calls pass the check, the two accounts of the method agree.\<close>

lemma gripper_caging_reward_checked_accepted:
  assumes "tolerance_spec_contract tol" "r \<le> 0.05"
    and "tolerance_accepts (0, x_z_success_margin) (tcp_obj_x_z_margin e)"
  shows "gripper_caging_reward_checked tol e action p r = gripper_caging_reward tol e action p r"
  using assms(2,3)
  by (simp add: gripper_caging_reward_checked_eq[OF assms(1)] gripper_caging_reward_def
      in_unit_sides_accepted[OF assms(1,2)] in_unit_combined_accepted[OF assms]
      in_unit_gripper_closed)

text \<open>
  Claim C7, amended. Given the contract of the tolerance function (a score in the unit
  interval for every call with ordered bounds and a margin of at least 0), no assertion of the
  caging reward fails, at any input. Where the object radius is at most 0.05 and the initial
  x/z distance between the object and the end effector is at least 0.005, all five calls pass
  the check of the tolerance function, every intermediate value (the per-side caging and
  gripping tolerances, \<open>y_caging\<close>, \<open>y_gripping\<close>, the x/z alignment score, \<open>caging\<close>,
  \<open>gripping\<close>, the clamped gripper command) lies in the unit interval, and for an action that
  has a last component the method returns a value between 0 and 1. At every other input the
  tolerance function rejects a call and the method raises ValueError instead of returning.
\<close>

theorem gripper_caging_reward_checked_unit_interval:
  assumes "tolerance_spec_contract tol"
  shows "gripper_caging_reward_checked tol e action obj_position obj_radius \<noteq> Inl AssertionError
       \<and> in_unit (gripper_closed action)
       \<and> (obj_radius \<le> 0.05
            \<and> 0.005 \<le> sqrt ((ix0 (obj_init_pos e) - ix0 (init_tcp e))\<^sup>2
                              + (ix2 (obj_init_pos e) - ix2 (init_tcp e))\<^sup>2) \<longrightarrow>
              tolerance_accepts (obj_radius, pad_success_margin)
                (right_caging_margin e obj_position)
            \<and> tolerance_accepts (obj_radius, pad_success_margin)
                (left_caging_margin e obj_position)
            \<and> tolerance_accepts (obj_radius, grip_success_margin obj_radius)
                (right_caging_margin e obj_position)
            \<and> tolerance_accepts (obj_radius, grip_success_margin obj_radius)
                (left_caging_margin e obj_position)
            \<and> tolerance_accepts (0, x_z_success_margin) (tcp_obj_x_z_margin e)
            \<and> in_unit (right_caging tol e obj_position obj_radius)
            \<and> in_unit (left_caging tol e obj_position obj_radius)
            \<and> in_unit (right_gripping tol e obj_position obj_radius)
            \<and> in_unit (left_gripping tol e obj_position obj_radius)
            \<and> in_unit (y_caging tol e obj_position obj_radius)
            \<and> in_unit (y_gripping tol e obj_position obj_radius)
            \<and> in_unit (x_z_caging tol e obj_position)
            \<and> in_unit (caging tol e obj_position obj_radius)
            \<and> in_unit (gripping tol e obj_position obj_radius)
            \<and> in_unit (caging_and_gripping tol e obj_position obj_radius)
            \<and> (action \<noteq> [] \<longrightarrow>
                 (\<exists>v. gripper_caging_reward_checked tol e action obj_position obj_radius
                        = Inr v
                      \<and> 0 \<le> v \<and> v \<le> 1)))
       \<and> (\<not> (obj_radius \<le> 0.05
               \<and> 0.005 \<le> sqrt ((ix0 (obj_init_pos e) - ix0 (init_tcp e))\<^sup>2
                                 + (ix2 (obj_init_pos e) - ix2 (init_tcp e))\<^sup>2)) \<longrightarrow>
            gripper_caging_reward_checked tol e action obj_position obj_radius
              = Inl ValueError)"
proof (intro conjI impI)
  note eq = gripper_caging_reward_checked_eq[OF assms, of e action obj_position obj_radius]
  show "gripper_caging_reward_checked tol e action obj_position obj_radius \<noteq> Inl AssertionError"
    unfolding eq by simp
  show "in_unit (gripper_closed action)"
    by (rule in_unit_gripper_closed)
  {
    assume "\<not> (obj_radius \<le> 0.05
               \<and> 0.005 \<le> sqrt ((ix0 (obj_init_pos e) - ix0 (init_tcp e))\<^sup>2
                                 + (ix2 (obj_init_pos e) - ix2 (init_tcp e))\<^sup>2))"
    then show "gripper_caging_reward_checked tol e action obj_position obj_radius
                 = Inl ValueError"
      unfolding eq x_z_call_accepted by simp
  }
  assume a: "obj_radius \<le> 0.05
            \<and> 0.005 \<le> sqrt ((ix0 (obj_init_pos e) - ix0 (init_tcp e))\<^sup>2
                              + (ix2 (obj_init_pos e) - ix2 (init_tcp e))\<^sup>2)"
  then have r: "obj_radius \<le> 0.05"
    and x: "tolerance_accepts (0, x_z_success_margin) (tcp_obj_x_z_margin e)"
    by (simp_all add: x_z_call_accepted)
  show "tolerance_accepts (obj_radius, pad_success_margin) (right_caging_margin e obj_position)"
    "tolerance_accepts (obj_radius, pad_success_margin) (left_caging_margin e obj_position)"
    using r by (simp_all add: per_side_calls_accepted)
  show "tolerance_accepts (obj_radius, grip_success_margin obj_radius)
          (right_caging_margin e obj_position)"
    "tolerance_accepts (obj_radius, grip_success_margin obj_radius)
          (left_caging_margin e obj_position)"
    by (rule per_side_calls_accepted)+
  show "tolerance_accepts (0, x_z_success_margin) (tcp_obj_x_z_margin e)"
    by (rule x)
  show "in_unit (right_caging tol e obj_position obj_radius)"
    "in_unit (left_caging tol e obj_position obj_radius)"
    "in_unit (right_gripping tol e obj_position obj_radius)"
    "in_unit (left_gripping tol e obj_position obj_radius)"
    "in_unit (y_caging tol e obj_position obj_radius)"
    "in_unit (y_gripping tol e obj_position obj_radius)"
    by (rule in_unit_sides_accepted[OF assms r])+
  show "in_unit (x_z_caging tol e obj_position)"
    "in_unit (caging tol e obj_position obj_radius)"
    "in_unit (gripping tol e obj_position obj_radius)"
    "in_unit (caging_and_gripping tol e obj_position obj_radius)"
    by (rule in_unit_combined_accepted[OF assms r x])+
  assume "action \<noteq> []"
  then show "\<exists>v. gripper_caging_reward_checked tol e action obj_position obj_radius = Inr v
                 \<and> 0 \<le> v \<and> v \<le> 1"
    unfolding eq
    using r x in_unit_combined_accepted(4)[OF assms r x, of obj_position]
    by (simp add: in_unit_def)
qed

text \<open>
  Claim C10. The caging reward does not depend on the action: two actions that have a last
  component give the same result for the same tolerance function, environment, object position
  and radius.
\<close>

theorem gripper_caging_reward_ignores_action:
  assumes "a1 \<noteq> []" "a2 \<noteq> []"
  shows "gripper_caging_reward tol e a1 obj_position obj_radius
         = gripper_caging_reward tol e a2 obj_position obj_radius"
  using assms by (simp add: gripper_caging_reward_def in_unit_gripper_closed)

section \<open>The reward composer\<close>

lemma target_to_obj_weighted:
  "target_to_obj e obj =
     sqrt ((3 * (ix0 obj - ix0 (priv_target_pos e)))\<^sup>2
           + (ix1 obj - ix1 (priv_target_pos e))\<^sup>2
           + (ix2 obj - ix2 (priv_target_pos e))\<^sup>2)"
  by (cases obj; cases "priv_target_pos e")
     (simp add: target_to_obj_def x_scaling_def mult.commute)

lemma target_to_obj_init_weighted:
  "target_to_obj_init e obj =
     sqrt ((3 * (ix0 obj - ix0 (obj_init_pos e)))\<^sup>2
           + (ix1 obj - ix1 (obj_init_pos e))\<^sup>2
           + (ix2 obj - ix2 (obj_init_pos e))\<^sup>2)"
  by (cases obj; cases "obj_init_pos e")
     (simp add: target_to_obj_init_def x_scaling_def mult.commute)

lemma linalg_norm_vsub:
  "linalg_norm (vsub p q) = sqrt ((ix0 p - ix0 q)\<^sup>2 + (ix1 p - ix1 q)\<^sup>2 + (ix2 p - ix2 q)\<^sup>2)"
  by (cases p; cases q) simp

lemma square_le_tripled: "(x::real)\<^sup>2 \<le> (3 * x)\<^sup>2"
proof -
  have "(3 * x)\<^sup>2 = 9 * x\<^sup>2" by (simp add: power2_eq_square)
  moreover have "0 \<le> x\<^sup>2" by simp
  ultimately show ?thesis by linarith
qed

lemma true_distance_le_weighted:
  "linalg_norm (vsub obj (priv_target_pos e)) \<le> target_to_obj e obj"
proof -
  have "(ix0 obj - ix0 (priv_target_pos e))\<^sup>2 \<le> (3 * (ix0 obj - ix0 (priv_target_pos e)))\<^sup>2"
    by (rule square_le_tripled)
  then show ?thesis
    unfolding target_to_obj_weighted linalg_norm_vsub by (intro real_sqrt_le_mono) simp
qed

lemma in_unit_clip: "in_unit (clip x 0 1)"
  by (simp add: clip_def in_unit_def)

lemma in_unit_in_place:
  assumes "tolerance_contract tol"
  shows "in_unit (in_place tol e obj)"
  using tolerance_contract_in_unit[OF assms]
  by (simp add: in_place_def goal_line_penalised_def in_place_tolerance_def in_unit_clip in_unit_zero)

lemma compute_reward_returns:
  assumes "tolerance_contract tol" "action \<noteq> []" "7 \<le> length obs"
  shows "compute_reward tol e action obs =
           Inr ((if target_to_obj e (obs_obj obs) < TARGET_RADIUS then 10
                 else 3 * caging_and_gripping tol e (obs_obj obs) OBJ_RADIUS
                      + 6.5 * in_place tol e (obs_obj obs)),
                linalg_norm (vsub (obs_obj obs) (tcp_center e)),
                obs ! 3,
                linalg_norm (vsub (obs_obj obs) (priv_target_pos e)),
                caging_and_gripping tol e (obs_obj obs) OBJ_RADIUS,
                in_place tol e (obs_obj obs))"
  using assms(3) gripper_caging_reward_returns[OF assms(1,2)]
  by (simp add: compute_reward_def Let_def)

lemma shaped_reward_below_bonus:
  assumes "in_unit g" "in_unit ip"
  shows "3 * g + 6.5 * ip < 10"
  using assms by (simp add: in_unit_def)

text \<open>
  Claim C1, amended. \<^verbatim>\<open>compute_reward\<close> returns the reward
  \<open>3 * object_grasped + 6.5 * in_place\<close>, except that the reward is exactly 10 whenever the
  weighted distance between the object and the target (first axis tripled, the same
  \<open>target_to_obj\<close> that shapes \<open>in_place\<close>) is strictly below \<open>TARGET_RADIUS = 0.07\<close>.
  The fourth component of the result is the unweighted distance; a reward of 10 implies that
  this distance is below 0.07 too.
\<close>

theorem compute_reward_weighted_override:
  assumes "tolerance_contract tol" "action \<noteq> []" "7 \<le> length obs"
  shows "\<exists>reward tcp_to_obj tcp_opened true_dist object_grasped in_place_v.
           compute_reward tol e action obs =
             Inr (reward, tcp_to_obj, tcp_opened, true_dist, object_grasped, in_place_v)
         \<and> gripper_caging_reward tol e action (obs_obj obs) OBJ_RADIUS = Inr object_grasped
         \<and> in_place_v = in_place tol e (obs_obj obs)
         \<and> true_dist = sqrt ((obs ! 4 - ix0 (priv_target_pos e))\<^sup>2
                             + (obs ! 5 - ix1 (priv_target_pos e))\<^sup>2
                             + (obs ! 6 - ix2 (priv_target_pos e))\<^sup>2)
         \<and> reward =
             (if sqrt ((3 * (obs ! 4 - ix0 (priv_target_pos e)))\<^sup>2
                       + (obs ! 5 - ix1 (priv_target_pos e))\<^sup>2
                       + (obs ! 6 - ix2 (priv_target_pos e))\<^sup>2) < 0.07
              then 10
              else 3 * object_grasped + 6.5 * in_place_v)
         \<and> (reward = 10 \<longrightarrow> true_dist < 0.07)"
proof -
  let ?obj = "obs_obj obs"
  let ?g = "caging_and_gripping tol e ?obj OBJ_RADIUS"
  let ?ip = "in_place tol e ?obj"
  have w: "target_to_obj e ?obj =
             sqrt ((3 * (obs ! 4 - ix0 (priv_target_pos e)))\<^sup>2
                   + (obs ! 5 - ix1 (priv_target_pos e))\<^sup>2
                   + (obs ! 6 - ix2 (priv_target_pos e))\<^sup>2)"
    by (simp add: target_to_obj_weighted obs_obj_def)
  have d: "linalg_norm (vsub ?obj (priv_target_pos e)) =
             sqrt ((obs ! 4 - ix0 (priv_target_pos e))\<^sup>2
                   + (obs ! 5 - ix1 (priv_target_pos e))\<^sup>2
                   + (obs ! 6 - ix2 (priv_target_pos e))\<^sup>2)"
    by (simp add: linalg_norm_vsub obs_obj_def)
  have lt: "3 * ?g + 6.5 * ?ip < 10"
    by (rule shaped_reward_below_bonus)
       (simp_all add: in_unit_combined[OF assms(1)] in_unit_in_place[OF assms(1)])
  have le: "linalg_norm (vsub ?obj (priv_target_pos e)) \<le> target_to_obj e ?obj"
    by (rule true_distance_le_weighted)
  have imp: "(if target_to_obj e ?obj < TARGET_RADIUS then 10 else 3 * ?g + 6.5 * ?ip) = 10
             \<longrightarrow> linalg_norm (vsub ?obj (priv_target_pos e)) < 0.07"
    using lt le by (auto simp: TARGET_RADIUS_def)
  show ?thesis
    using compute_reward_returns[OF assms, of e] gripper_caging_reward_returns[OF assms(1,2), of e ?obj OBJ_RADIUS]
      imp
    unfolding w d by (simp add: TARGET_RADIUS_def)
qed

text \<open>
  Claim C4. In \<^verbatim>\<open>compute_reward\<close> the score \<open>in_place\<close> is first the tolerance function at
  the distance between object and target in the norm that weights the first axis by 3 and the
  others by 1, with bounds \<open>(0, TARGET_RADIUS)\<close>, the margin being the distance between the
  object and its initial position in the same weighted norm, and the shape \<open>long_tail\<close>; the
  returned distance between end effector and object is the unweighted Euclidean norm.
\<close>

theorem compute_reward_in_place_norms:
  assumes "tolerance_contract tol" "action \<noteq> []" "7 \<le> length obs"
  shows "\<exists>reward tcp_to_obj tcp_opened true_dist object_grasped in_place_v.
           compute_reward tol e action obs =
             Inr (reward, tcp_to_obj, tcp_opened, true_dist, object_grasped, in_place_v)
         \<and> tcp_to_obj = sqrt ((obs ! 4 - ix0 (tcp_center e))\<^sup>2
                              + (obs ! 5 - ix1 (tcp_center e))\<^sup>2
                              + (obs ! 6 - ix2 (tcp_center e))\<^sup>2)
         \<and> in_place_tolerance tol e (obs_obj obs) =
             tol (sqrt ((3 * (obs ! 4 - ix0 (priv_target_pos e)))\<^sup>2
                        + (1 * (obs ! 5 - ix1 (priv_target_pos e)))\<^sup>2
                        + (1 * (obs ! 6 - ix2 (priv_target_pos e)))\<^sup>2))
                 (0, 0.07)
                 (sqrt ((3 * (obs ! 4 - ix0 (obj_init_pos e)))\<^sup>2
                        + (1 * (obs ! 5 - ix1 (obj_init_pos e)))\<^sup>2
                        + (1 * (obs ! 6 - ix2 (obj_init_pos e)))\<^sup>2))
                 ''long_tail''
         \<and> in_place_v =
             (if past_goal_line e (obs_obj obs) then goal_line_penalised tol e (obs_obj obs)
              else in_place_tolerance tol e (obs_obj obs))"
proof -
  have t: "linalg_norm (vsub (obs_obj obs) (tcp_center e)) =
             sqrt ((obs ! 4 - ix0 (tcp_center e))\<^sup>2
                   + (obs ! 5 - ix1 (tcp_center e))\<^sup>2
                   + (obs ! 6 - ix2 (tcp_center e))\<^sup>2)"
    by (simp add: linalg_norm_vsub obs_obj_def)
  have ip: "in_place_tolerance tol e (obs_obj obs) =
             tol (sqrt ((3 * (obs ! 4 - ix0 (priv_target_pos e)))\<^sup>2
                        + (1 * (obs ! 5 - ix1 (priv_target_pos e)))\<^sup>2
                        + (1 * (obs ! 6 - ix2 (priv_target_pos e)))\<^sup>2))
                 (0, 0.07)
                 (sqrt ((3 * (obs ! 4 - ix0 (obj_init_pos e)))\<^sup>2
                        + (1 * (obs ! 5 - ix1 (obj_init_pos e)))\<^sup>2
                        + (1 * (obs ! 6 - ix2 (obj_init_pos e)))\<^sup>2))
                 ''long_tail''"
    by (simp add: in_place_tolerance_def target_to_obj_weighted target_to_obj_init_weighted
        obs_obj_def TARGET_RADIUS_def)
  show ?thesis
    using compute_reward_returns[OF assms, of e] t ip by (simp add: in_place_def)
qed

text \<open>
  Claim C5. With \<open>goal_line = target[1] - 0.1\<close>: exactly when the object's second coordinate
  exceeds the goal line and its first-axis offset from the target exceeds 0.10 in absolute
  value, the returned \<open>in_place\<close> is the tolerance score minus the penalty
  \<open>2 / (1 - goal_line) * (obj[1] - goal_line)\<close>, linear in \<open>obj[1] - goal_line\<close>, clamped to
  the unit interval (the clamp of an infinite penalty, 0, when \<open>goal_line = 1\<close>); in every
  other state it is the tolerance score unchanged.
\<close>

theorem compute_reward_goal_line_override:
  assumes "tolerance_contract tol" "action \<noteq> []" "7 \<le> length obs"
  shows "\<exists>reward tcp_to_obj tcp_opened true_dist object_grasped in_place_v.
           compute_reward tol e action obs =
             Inr (reward, tcp_to_obj, tcp_opened, true_dist, object_grasped, in_place_v)
         \<and> goal_line e = ix1 (priv_target_pos e) - 0.1
         \<and> in_place_v =
             (if obs ! 5 > goal_line e \<and> \<bar>obs ! 4 - ix0 (priv_target_pos e)\<bar> > 0.10
              then (if goal_line e = 1 then 0
                    else min (max (in_place_tolerance tol e (obs_obj obs)
                                     - (2 / (1 - goal_line e)) * (obs ! 5 - goal_line e)) 0) 1)
              else in_place_tolerance tol e (obs_obj obs))
         \<and> 0 \<le> in_place_v \<and> in_place_v \<le> 1"
proof -
  have v: "in_place tol e (obs_obj obs) =
             (if obs ! 5 > goal_line e \<and> \<bar>obs ! 4 - ix0 (priv_target_pos e)\<bar> > 0.10
              then (if goal_line e = 1 then 0
                    else min (max (in_place_tolerance tol e (obs_obj obs)
                                     - (2 / (1 - goal_line e)) * (obs ! 5 - goal_line e)) 0) 1)
              else in_place_tolerance tol e (obs_obj obs))"
    by (simp add: in_place_def past_goal_line_def goal_line_penalised_def clip_def obs_obj_def)
  have u: "0 \<le> in_place tol e (obs_obj obs) \<and> in_place tol e (obs_obj obs) \<le> 1"
    using in_unit_in_place[OF assms(1), of e "obs_obj obs"] by (simp add: in_unit_def)
  have g: "goal_line e = ix1 (priv_target_pos e) - 0.1"
    by (simp add: goal_line_def)
  show ?thesis
    using compute_reward_returns[OF assms, of e] v u g by simp
qed

text \<open>
  The flags of \<^verbatim>\<open>evaluate_state\<close>: \<open>success\<close> and \<open>near_object\<close> test the unweighted
  distances; \<open>grasp_success\<close> tests the gripper opening and the height of the object, and
  nothing else.
\<close>

lemma evaluate_state_flags:
  assumes "tolerance_contract tol" "action \<noteq> []" "7 \<le> length obs" "task_is_set e"
  shows "\<exists>reward inf.
           evaluate_state tol e obs action = Inr (reward, inf)
         \<and> (success inf = 1 \<or> success inf = 0)
         \<and> (near_object inf = 1 \<or> near_object inf = 0)
         \<and> (grasp_success inf = 1 \<or> grasp_success inf = 0)
         \<and> (success inf = 1 \<longleftrightarrow>
              sqrt ((obs ! 4 - ix0 (priv_target_pos e))\<^sup>2
                    + (obs ! 5 - ix1 (priv_target_pos e))\<^sup>2
                    + (obs ! 6 - ix2 (priv_target_pos e))\<^sup>2) \<le> 0.07)
         \<and> (near_object inf = 1 \<longleftrightarrow>
              sqrt ((obs ! 4 - ix0 (tcp_center e))\<^sup>2
                    + (obs ! 5 - ix1 (tcp_center e))\<^sup>2
                    + (obs ! 6 - ix2 (tcp_center e))\<^sup>2) \<le> 0.03)
         \<and> (grasp_success inf = 1 \<longleftrightarrow>
              obs ! 3 > 0 \<and> obs ! 6 - ix2 (obj_init_pos e) > 0.02)"
proof -
  have t: "linalg_norm (vsub (obs_obj obs) (tcp_center e)) =
             sqrt ((obs ! 4 - ix0 (tcp_center e))\<^sup>2
                   + (obs ! 5 - ix1 (tcp_center e))\<^sup>2
                   + (obs ! 6 - ix2 (tcp_center e))\<^sup>2)"
    by (simp add: linalg_norm_vsub obs_obj_def)
  have d: "linalg_norm (vsub (obs_obj obs) (priv_target_pos e)) =
             sqrt ((obs ! 4 - ix0 (priv_target_pos e))\<^sup>2
                   + (obs ! 5 - ix1 (priv_target_pos e))\<^sup>2
                   + (obs ! 6 - ix2 (priv_target_pos e))\<^sup>2)"
    by (simp add: linalg_norm_vsub obs_obj_def)
  have z: "ix2 (obs_obj obs) = obs ! 6"
    by (simp add: obs_obj_def)
  show ?thesis
    using assms(4) compute_reward_returns[OF assms(1-3), of e]
    unfolding evaluate_state_def t d z
    by (auto simp: float_of_bool_def touching_object_def)
qed

section \<open>The task sampler\<close>

lemma resample_result:
  assumes "resample rand g e = Some y"
  shows "\<not> linalg_norm2 (vsub2 (first2 (fst (fst y))) (first2 (priv_target_pos (snd y)))) < 0.15
       \<and> obj_init_pos (snd y) = obj_init_pos e
       \<and> (0 < draws e \<and> g = rand (draws e - 1) \<and> priv_target_pos e = snd g \<longrightarrow>
            0 < draws (snd y) \<and> fst y = rand (draws (snd y) - 1)
            \<and> priv_target_pos (snd y) = snd (fst y))"
  using assms
proof (induction rand g e y rule: resample.raw_induct[rotated 1, consumes 1, case_names step])
  case (step resample rand goal_pos e y)
  note 1 = step
  show ?case
  proof (cases "linalg_norm2 (vsub2 (first2 (fst goal_pos)) (first2 (priv_target_pos e))) < 0.15")
    case True
    let ?g = "fst (get_state_rand_vec rand e)"
    let ?e = "(snd (get_state_rand_vec rand e))\<lparr>priv_target_pos := snd ?g\<rparr>"
    from True 1(2) have r: "resample rand ?g ?e = Some y" by simp
    have pre: "0 < draws ?e \<and> ?g = rand (draws ?e - 1) \<and> priv_target_pos ?e = snd ?g"
      by (simp add: get_state_rand_vec_def)
    have keep: "obj_init_pos ?e = obj_init_pos e"
      by (simp add: get_state_rand_vec_def)
    note ih = 1(1)[OF r]
    from ih have a: "\<not> linalg_norm2 (vsub2 (first2 (fst (fst y))) (first2 (priv_target_pos (snd y)))) < 0.15"
      by (rule conjunct1)
    from ih have b: "obj_init_pos (snd y) = obj_init_pos ?e"
      by (rule conjunct2[THEN conjunct1])
    from ih have c: "0 < draws ?e \<and> ?g = rand (draws ?e - 1) \<and> priv_target_pos ?e = snd ?g \<longrightarrow>
            0 < draws (snd y) \<and> fst y = rand (draws (snd y) - 1)
            \<and> priv_target_pos (snd y) = snd (fst y)"
      by (rule conjunct2[THEN conjunct2])
    from c pre have post: "0 < draws (snd y) \<and> fst y = rand (draws (snd y) - 1)
            \<and> priv_target_pos (snd y) = snd (fst y)"
      by (rule mp)
    from b keep have b': "obj_init_pos (snd y) = obj_init_pos e" by (rule trans)
    from a b' post show ?thesis by blast
  next
    case False
    with 1(2) have "y = (goal_pos, e)" by simp
    with False show ?thesis by simp
  qed
qed

lemma norm2_configured:
  "linalg_norm2 (vsub2 (first2 obj_low) (first2 goal_low)) = 0.2"
proof -
  have "sqrt ((1/5)\<^sup>2) = (1/5 :: real)" using real_sqrt_abs[of "1/5"] by simp
  then show ?thesis by (simp add: obj_low_def goal_low_def power2_eq_square)
qed

lemma ix_first2: "(ix0 v, ix1 v) = first2 v"
  by (cases v) simp

lemma in_box_configured:
  "in_box random_reset_space_low random_reset_space_high v \<longleftrightarrow> v = (obj_low, goal_low)"
  by (cases v; cases "fst v"; cases "snd v")
     (auto simp: in_box_def random_reset_space_low_def random_reset_space_high_def
        obj_low_def obj_high_def goal_low_def goal_high_def)

lemma reset_model_Some:
  assumes "reset_model rand e = Some e'"
  shows "\<exists>g e4. resample rand (rand (draws e))
                  (e\<lparr>obj_init_angle := init_config_obj_init_angle,
                     draws := Suc (draws e),
                     priv_target_pos := snd (rand (draws e))\<rparr>) = Some (g, e4)
               \<and> e' = e4\<lparr>target_pos := priv_target_pos e4,
                         obj_init_pos := (ix0 (fst g), ix1 (fst g), ix2 (obj_init_pos e4)),
                         goal_whole_body_pos := priv_target_pos e4,
                         obj_xyz := (ix0 (fst g), ix1 (fst g), ix2 (obj_init_pos e4)),
                         maxPushDist :=
                           linalg_norm2 (vsub2 (first2 (fst g)) (first2 (priv_target_pos e4)))\<rparr>"
proof (cases "resample rand (rand (draws e))
                  (e\<lparr>obj_init_angle := init_config_obj_init_angle,
                     draws := Suc (draws e),
                     priv_target_pos := snd (rand (draws e))\<rparr>)")
  case None
  with assms show ?thesis
    by (simp add: reset_model_def Let_def get_state_rand_vec_def)
next
  case (Some p)
  obtain g e4 where p: "p = (g, e4)" by (cases p)
  from assms Some p show ?thesis
    by (auto simp: reset_model_def Let_def get_state_rand_vec_def ix_first2)
qed

lemma reset_model_accepted:
  assumes "reset_model rand e = Some e'"
  shows "0 < draws e'
       \<and> priv_target_pos e' = snd (rand (draws e' - 1))
       \<and> target_pos e' = priv_target_pos e'
       \<and> goal_whole_body_pos e' = priv_target_pos e'
       \<and> obj_init_pos e' =
           (ix0 (fst (rand (draws e' - 1))), ix1 (fst (rand (draws e' - 1))), ix2 (obj_init_pos e))
       \<and> obj_xyz e' = obj_init_pos e'
       \<and> maxPushDist e' =
           linalg_norm2 (vsub2 (first2 (obj_init_pos e')) (first2 (priv_target_pos e')))
       \<and> \<not> linalg_norm2 (vsub2 (first2 (obj_init_pos e')) (first2 (priv_target_pos e'))) < 0.15"
proof -
  let ?e3 = "e\<lparr>obj_init_angle := init_config_obj_init_angle,
               draws := Suc (draws e),
               priv_target_pos := snd (rand (draws e))\<rparr>"
  from reset_model_Some[OF assms] obtain g e4 where
    r: "resample rand (rand (draws e)) ?e3 = Some (g, e4)" and
    e': "e' = e4\<lparr>target_pos := priv_target_pos e4,
                  obj_init_pos := (ix0 (fst g), ix1 (fst g), ix2 (obj_init_pos e4)),
                  goal_whole_body_pos := priv_target_pos e4,
                  obj_xyz := (ix0 (fst g), ix1 (fst g), ix2 (obj_init_pos e4)),
                  maxPushDist :=
                    linalg_norm2 (vsub2 (first2 (fst g)) (first2 (priv_target_pos e4)))\<rparr>"
    by blast
  have pre: "0 < draws ?e3 \<and> rand (draws e) = rand (draws ?e3 - 1)
             \<and> priv_target_pos ?e3 = snd (rand (draws e))"
    by simp
  note rr = resample_result[OF r, simplified fst_conv snd_conv]
  from rr have acc: "\<not> linalg_norm2 (vsub2 (first2 (fst g)) (first2 (priv_target_pos e4))) < 0.15"
    by (rule conjunct1)
  from rr have keep': "obj_init_pos e4 = obj_init_pos ?e3"
    by (rule conjunct2[THEN conjunct1])
  then have keep: "obj_init_pos e4 = obj_init_pos e" by simp
  from rr[THEN conjunct2, THEN conjunct2] pre
  have post: "0 < draws e4 \<and> g = rand (draws e4 - 1) \<and> priv_target_pos e4 = snd g"
    by (rule mp)
  from post have d: "0 < draws e4" by (rule conjunct1)
  from post have g: "g = rand (draws e4 - 1)" by (rule conjunct2[THEN conjunct1])
  from post have t: "priv_target_pos e4 = snd g" by (rule conjunct2[THEN conjunct2])
  note acc' = acc[unfolded t g]
  show ?thesis
    unfolding e' using acc' keep d t[unfolded g] by (simp add: ix_first2 g)
qed

lemma reset_model_separated:
  assumes "reset_model rand e = Some e'"
  shows "0.15 \<le> linalg_norm2 (vsub2 (first2 (obj_init_pos e')) (first2 (priv_target_pos e')))"
    and "0.15 \<le> maxPushDist e'"
proof -
  note a = reset_model_accepted[OF assms]
  from a have n: "\<not> linalg_norm2 (vsub2 (first2 (obj_init_pos e')) (first2 (priv_target_pos e'))) < 0.15"
    by blast
  from a have m: "maxPushDist e' =
           linalg_norm2 (vsub2 (first2 (obj_init_pos e')) (first2 (priv_target_pos e')))"
    by blast
  from n show "0.15 \<le> linalg_norm2 (vsub2 (first2 (obj_init_pos e')) (first2 (priv_target_pos e')))"
    by (simp only: not_less)
  then show "0.15 \<le> maxPushDist e'" by (simp only: m)
qed

lemma resample_configured:
  assumes "priv_target_pos e = goal_low"
  shows "resample rand (obj_low, goal_low) e = Some ((obj_low, goal_low), e)"
  using assms norm2_configured
  by (subst resample.simps) simp

lemma reset_model_configured:
  assumes "\<forall>n. in_box random_reset_space_low random_reset_space_high (rand n)"
  shows "reset_model rand e =
           Some (e\<lparr>obj_init_angle := init_config_obj_init_angle,
                   draws := Suc (draws e),
                   priv_target_pos := goal_low,
                   target_pos := goal_low,
                   obj_init_pos := (0, 0.65, ix2 (obj_init_pos e)),
                   goal_whole_body_pos := goal_low,
                   obj_xyz := (0, 0.65, ix2 (obj_init_pos e)),
                   maxPushDist := 0.2\<rparr>)"
proof -
  from assms have r: "\<And>n. rand n = (obj_low, goal_low)"
    by (simp add: in_box_configured)
  have n: "linalg_norm2 (vsub2 (0, 13 / 20) (first2 goal_low)) = 1 / 5"
    using norm2_configured by (simp add: obj_low_def)
  show ?thesis
    by (simp add: reset_model_def Let_def get_state_rand_vec_def r resample_configured n)
       (simp add: obj_low_def n)
qed

lemma reset_model_first_accepted:
  assumes "\<not> linalg_norm2 (vsub2 (first2 (fst (rand (draws e))))
                                  (first2 (snd (rand (draws e))))) < 0.15"
  shows "reset_model rand e =
           Some (e\<lparr>obj_init_angle := init_config_obj_init_angle,
                   draws := Suc (draws e),
                   priv_target_pos := snd (rand (draws e)),
                   target_pos := snd (rand (draws e)),
                   obj_init_pos := (ix0 (fst (rand (draws e))), ix1 (fst (rand (draws e))),
                                    ix2 (obj_init_pos e)),
                   goal_whole_body_pos := snd (rand (draws e)),
                   obj_xyz := (ix0 (fst (rand (draws e))), ix1 (fst (rand (draws e))),
                               ix2 (obj_init_pos e)),
                   maxPushDist :=
                     linalg_norm2 (vsub2 (first2 (fst (rand (draws e))))
                                         (first2 (snd (rand (draws e)))))\<rparr>)"
proof -
  let ?e3 = "e\<lparr>obj_init_angle := init_config_obj_init_angle,
               draws := Suc (draws e),
               priv_target_pos := snd (rand (draws e))\<rparr>"
  have "resample rand (rand (draws e)) ?e3 = Some (rand (draws e), ?e3)"
    using assms by (subst resample.simps) simp
  then show ?thesis
    by (simp add: reset_model_def Let_def get_state_rand_vec_def ix_first2)
qed

lemma reset_model_init_configured: "reset_model rand_configured env_init = Some env_demo"
proof -
  have "\<forall>n. in_box random_reset_space_low random_reset_space_high (rand_configured n)"
    by (simp add: in_box_configured rand_configured_def)
  from reset_model_configured[OF this, of env_init] show ?thesis
    by (simp add: env_init_def env_demo_def init_config_obj_init_angle_def goal_low_def
        init_config_obj_init_pos_def)
qed

lemma reset_model_init_raised:
  "reset_model rand_raised env_init =
     Some (env_demo\<lparr>priv_target_pos := (0, 0.85, 0.5), target_pos := (0, 0.85, 0.5),
                     goal_whole_body_pos := (0, 0.85, 0.5)\<rparr>)"
proof -
  have "sqrt ((1/5)\<^sup>2) = (1/5 :: real)" using real_sqrt_abs[of "1/5"] by simp
  then have n: "linalg_norm2 (vsub2 (first2 (fst (rand_raised (draws env_init))))
                            (first2 (snd (rand_raised (draws env_init))))) = 1/5"
    by (simp add: rand_raised_def power2_eq_square)
  have "\<not> linalg_norm2 (vsub2 (first2 (fst (rand_raised (draws env_init))))
                            (first2 (snd (rand_raised (draws env_init))))) < 0.15"
    unfolding n by simp
  from reset_model_first_accepted[of rand_raised env_init, OF this] show ?thesis
    unfolding n
    by (simp add: env_init_def env_demo_def init_config_obj_init_angle_def rand_raised_def
        init_config_obj_init_pos_def)
qed

text \<open>
  Claim C2. Whenever \<^verbatim>\<open>reset_model\<close> returns, the first two coordinates of the object's
  initial position and of the target are at least 0.15 apart. With the configured boxes (object
  fixed at \<open>(0, 0.65)\<close>, goal fixed at \<open>(0, 0.85)\<close>) it does return, the distance is exactly
  0.20, and one random vector is drawn: the body of the loop never runs.
\<close>

theorem reset_model_separation:
  "(reset_model rand e = Some e' \<longrightarrow>
      0.15 \<le> linalg_norm2 (vsub2 (first2 (obj_init_pos e')) (first2 (priv_target_pos e')))
      \<and> maxPushDist e' \<ge> 0.15)
   \<and> ((\<forall>n. in_box random_reset_space_low random_reset_space_high (rand n)) \<longrightarrow>
        (\<exists>e''. reset_model rand e = Some e''
              \<and> draws e'' = Suc (draws e)
              \<and> first2 (obj_init_pos e'') = (0, 0.65)
              \<and> first2 (priv_target_pos e'') = (0, 0.85)
              \<and> linalg_norm2 (vsub2 (first2 (obj_init_pos e'')) (first2 (priv_target_pos e'')))
                  = 0.20))"
proof (intro conjI impI)
  assume "reset_model rand e = Some e'"
  then show "0.15 \<le> linalg_norm2 (vsub2 (first2 (obj_init_pos e')) (first2 (priv_target_pos e')))"
    by (rule reset_model_separated(1))
next
  assume "reset_model rand e = Some e'"
  then show "maxPushDist e' \<ge> 0.15"
    by (rule reset_model_separated(2))
next
  assume a: "\<forall>n. in_box random_reset_space_low random_reset_space_high (rand n)"
  have n: "linalg_norm2 (vsub2 (0, 13 / 20) (17 / 20 * 0, 17 / 20)) = 1 / 5"
    using norm2_configured by (simp add: obj_low_def goal_low_def)
  show "\<exists>e''. reset_model rand e = Some e''
              \<and> draws e'' = Suc (draws e)
              \<and> first2 (obj_init_pos e'') = (0, 0.65)
              \<and> first2 (priv_target_pos e'') = (0, 0.85)
              \<and> linalg_norm2 (vsub2 (first2 (obj_init_pos e'')) (first2 (priv_target_pos e'')))
                  = 0.20"
    using norm2_configured
    by (simp add: reset_model_configured[OF a] goal_low_def obj_low_def)
qed

theorem reset_model_separation_witness:
  "reset_model rand_configured env_init = Some env_demo
   \<and> (\<forall>n. in_box random_reset_space_low random_reset_space_high (rand_configured n))
   \<and> 0.15 \<le> linalg_norm2 (vsub2 (first2 (obj_init_pos env_demo))
                                  (first2 (priv_target_pos env_demo)))
   \<and> draws env_demo = Suc (draws env_init)
   \<and> linalg_norm2 (vsub2 (first2 (obj_init_pos env_demo)) (first2 (priv_target_pos env_demo)))
       = 0.20"
proof -
  have r: "reset_model rand_configured env_init = Some env_demo"
    by (rule reset_model_init_configured)
  have b: "\<forall>n. in_box random_reset_space_low random_reset_space_high (rand_configured n)"
    by (simp add: in_box_configured rand_configured_def)
  from reset_model_separation[of rand_configured env_init env_demo] r b
  show ?thesis by auto
qed

text \<open>
  Claim C9, amended. After \<^verbatim>\<open>reset_model\<close> the target position is the goal half of the
  accepted random vector, the last one drawn, in all three components: its vertical component
  is the drawn value. The object's initial position takes its first two components from that
  vector and keeps the vertical component it had before the reset, which is 0.03 from
  \<^verbatim>\<open>__init__\<close> on.
\<close>

theorem reset_model_accepted_positions:
  assumes "reset_model rand e = Some e'"
  shows "0 < draws e'
       \<and> priv_target_pos e' = snd (rand (draws e' - 1))
       \<and> ix2 (priv_target_pos e') = ix2 (snd (rand (draws e' - 1)))
       \<and> target_pos e' = priv_target_pos e'
       \<and> goal_whole_body_pos e' = priv_target_pos e'
       \<and> obj_init_pos e' =
           (ix0 (fst (rand (draws e' - 1))), ix1 (fst (rand (draws e' - 1))), ix2 (obj_init_pos e))
       \<and> (obj_init_pos e = init_config_obj_init_pos \<longrightarrow> ix2 (obj_init_pos e') = 0.03)"
  using reset_model_accepted[OF assms] by (simp add: init_config_obj_init_pos_def)

theorem reset_model_accepted_positions_witness:
  "reset_model rand_raised env_init =
     Some (env_demo\<lparr>priv_target_pos := (0, 0.85, 0.5), target_pos := (0, 0.85, 0.5),
                     goal_whole_body_pos := (0, 0.85, 0.5)\<rparr>)
   \<and> obj_init_pos env_init = init_config_obj_init_pos
   \<and> rand_raised 0 = ((0, 0.65, 0.4), (0, 0.85, 0.5))
   \<and> priv_target_pos (env_demo\<lparr>priv_target_pos := (0, 0.85, 0.5), target_pos := (0, 0.85, 0.5),
                     goal_whole_body_pos := (0, 0.85, 0.5)\<rparr>) = snd (rand_raised 0)
   \<and> ix2 (obj_init_pos (env_demo\<lparr>priv_target_pos := (0, 0.85, 0.5), target_pos := (0, 0.85, 0.5),
                     goal_whole_body_pos := (0, 0.85, 0.5)\<rparr>)) = 0.03"
  using reset_model_accepted_positions[OF reset_model_init_raised] reset_model_init_raised
  by (simp add: env_init_def rand_raised_def init_config_obj_init_pos_def)

text \<open>
  Claim C9 as stated fails: two random sources that differ in the drawn heights give two
  target heights, 0.5 and 0, each the value drawn, while the object's height is 0.03 in both
  runs although one source draws 0.4 for it.
\<close>

theorem reset_model_target_height_counterexample:
  "map_option priv_target_pos (reset_model rand_raised env_init) = Some (0, 0.85, 0.5)
   \<and> map_option priv_target_pos (reset_model rand_configured env_init) = Some (0, 0.85, 0)
   \<and> map_option obj_init_pos (reset_model rand_raised env_init) = Some (0, 0.65, 0.03)
   \<and> map_option obj_init_pos (reset_model rand_configured env_init) = Some (0, 0.65, 0.03)"
  by (simp add: reset_model_init_raised reset_model_init_configured env_demo_def)

section \<open>The theorems at concrete states\<close>

lemma caging_demo_far:
  assumes "0.57 < ix1 p"
  shows "caging_and_gripping tolerance_hard env_demo p r = 0"
proof -
  have "right_caging tolerance_hard env_demo p r = 0"
    using assms
    by (simp add: right_caging_def tolerance_hard_def delta_object_y_right_pad_def
        env_demo_def pad_success_margin_def)
  then have "caging tolerance_hard env_demo p r = 0"
    by (simp add: caging_def y_caging_def hamacher_zero_left)
  then show ?thesis
    by (simp add: caging_and_gripping_def gripping_def)
qed

lemma caging_caged:
  "caging tolerance_hard env_caged (0, 0.65, 0.03) OBJ_RADIUS = 1"
  "y_gripping tolerance_hard env_caged (0, 0.65, 0.03) OBJ_RADIUS = 1"
  "caging_and_gripping tolerance_hard env_caged (0, 0.65, 0.03) OBJ_RADIUS = 1"
proof -
  have s: "right_caging tolerance_hard env_caged (0, 0.65, 0.03) OBJ_RADIUS = 1"
    "left_caging tolerance_hard env_caged (0, 0.65, 0.03) OBJ_RADIUS = 1"
    "right_gripping tolerance_hard env_caged (0, 0.65, 0.03) OBJ_RADIUS = 1"
    "left_gripping tolerance_hard env_caged (0, 0.65, 0.03) OBJ_RADIUS = 1"
    by (simp_all add: right_caging_def left_caging_def right_gripping_def left_gripping_def
        tolerance_hard_def delta_object_y_right_pad_def delta_object_y_left_pad_def
        env_caged_def env_demo_def pad_success_margin_def grip_success_margin_def OBJ_RADIUS_def)
  have x: "x_z_caging tolerance_hard env_caged (0, 0.65, 0.03) = 1"
    by (simp add: x_z_caging_def tolerance_hard_def tcp_obj_norm_x_z_def tcp_xz_def
        obj_position_x_z_def env_caged_def env_demo_def x_z_success_margin_def)
  show c: "caging tolerance_hard env_caged (0, 0.65, 0.03) OBJ_RADIUS = 1"
    unfolding caging_def y_caging_def s x by (simp add: hamacher_one_one)
  show g: "y_gripping tolerance_hard env_caged (0, 0.65, 0.03) OBJ_RADIUS = 1"
    unfolding y_gripping_def s by (simp add: hamacher_one_one)
  show "caging_and_gripping tolerance_hard env_caged (0, 0.65, 0.03) OBJ_RADIUS = 1"
    unfolding caging_and_gripping_def gripping_def c g by simp
qed

lemma action_demo_nonempty: "action_demo \<noteq> []"
  by (simp add: action_demo_def)

lemma obs_with_ball_length: "7 \<le> length (obs_with_ball p)"
  by (simp add: obs_with_ball_def)

lemma obs_with_ball_obj: "obs_obj (obs_with_ball p) = p"
  by (cases p) (simp add: obs_obj_def obs_with_ball_def)

text \<open>
  With both pads bracketing the ball the branch \<open>caging > 0.95\<close> is taken and the reward
  is 1.
\<close>

theorem gripper_caging_reward_value_witness:
  "tolerance_contract tolerance_hard \<and> action_demo \<noteq> []
   \<and> caging tolerance_hard env_caged (0, 0.65, 0.03) OBJ_RADIUS > 0.95
   \<and> hamacher_product (right_gripping tolerance_hard env_caged (0, 0.65, 0.03) OBJ_RADIUS)
        (left_gripping tolerance_hard env_caged (0, 0.65, 0.03) OBJ_RADIUS) = 1
   \<and> gripper_caging_reward tolerance_hard env_caged action_demo (0, 0.65, 0.03) OBJ_RADIUS
       = Inr 1"
  using gripper_caging_reward_value[OF tolerance_contract_hard action_demo_nonempty,
          of env_caged "(0, 0.65, 0.03)" OBJ_RADIUS]
    caging_caged tolerance_contract_hard action_demo_nonempty
  by (simp add: y_gripping_def)

text \<open>
  In the state \<open>env_demo\<close> the initial x/z distance is 0.02 and all calls pass the check.
\<close>

theorem gripper_caging_reward_checked_unit_interval_witness:
  "tolerance_spec_contract tolerance_hard
   \<and> OBJ_RADIUS \<le> 0.05
   \<and> 0.005 \<le> sqrt ((ix0 (obj_init_pos env_demo) - ix0 (init_tcp env_demo))\<^sup>2
                   + (ix2 (obj_init_pos env_demo) - ix2 (init_tcp env_demo))\<^sup>2)
   \<and> action_demo \<noteq> []
   \<and> in_unit (x_z_caging tolerance_hard env_demo (0, 0.65, 0.03))
   \<and> in_unit (caging tolerance_hard env_demo (0, 0.65, 0.03) OBJ_RADIUS)
   \<and> in_unit (gripping tolerance_hard env_demo (0, 0.65, 0.03) OBJ_RADIUS)
   \<and> (\<exists>v. gripper_caging_reward_checked tolerance_hard env_demo action_demo
             (0, 0.65, 0.03) OBJ_RADIUS = Inr v
          \<and> 0 \<le> v \<and> v \<le> 1)"
proof -
  have r: "OBJ_RADIUS \<le> 0.05"
    by (simp add: OBJ_RADIUS_def)
  have "sqrt ((1 / 50)\<^sup>2) = (1 / 50 :: real)"
    using real_sqrt_abs[of "1 / 50 :: real"] by simp
  then have d: "0.005 \<le> sqrt ((ix0 (obj_init_pos env_demo) - ix0 (init_tcp env_demo))\<^sup>2
                   + (ix2 (obj_init_pos env_demo) - ix2 (init_tcp env_demo))\<^sup>2)"
    by (simp add: env_demo_def power2_eq_square)
  from gripper_caging_reward_checked_unit_interval[OF tolerance_spec_contract_hard,
         of env_demo action_demo "(0, 0.65, 0.03)" OBJ_RADIUS]
    r d action_demo_nonempty tolerance_spec_contract_hard
  show ?thesis by blast
qed

text \<open>
  Claim C7 as stated fails: in the state \<open>env_level\<close>, with finite coordinates, the margin
  of the x/z alignment is negative, the tolerance function rejects the call, and the caging
  reward raises ValueError: it returns no value in the unit interval.
\<close>

theorem gripper_caging_reward_negative_margin_counterexample:
  "tcp_obj_x_z_margin env_level = - 0.005
   \<and> gripper_caging_reward_checked tolerance_hard env_level action_demo
        (0, 0.65, 0.03) OBJ_RADIUS = Inl ValueError"
proof -
  have m: "tcp_obj_x_z_margin env_level = - 0.005"
    by (simp add: tcp_obj_x_z_margin_def init_obj_x_z_def init_tcp_x_z_def env_level_def
        env_demo_def x_z_success_margin_def)
  then have "\<not> tolerance_accepts (0, x_z_success_margin) (tcp_obj_x_z_margin env_level)"
    by (simp add: tolerance_accepts_def)
  then show ?thesis
    using m by (simp add: gripper_caging_reward_checked_eq[OF tolerance_spec_contract_hard])
qed

theorem gripper_caging_reward_ignores_action_witness:
  "action_demo \<noteq> [] \<and> [1, 1, 1, 0 :: real] \<noteq> []
   \<and> gripper_caging_reward tolerance_hard env_caged action_demo (0, 0.65, 0.03) OBJ_RADIUS
       = gripper_caging_reward tolerance_hard env_caged [1, 1, 1, 0] (0, 0.65, 0.03) OBJ_RADIUS"
  using gripper_caging_reward_ignores_action[of action_demo "[1, 1, 1, 0]"
          tolerance_hard env_caged "(0, 0.65, 0.03)" OBJ_RADIUS]
    action_demo_nonempty
  by simp

lemma sqrt_demo_bounds:
  "sqrt (1 / 1000) < (7 / 100 :: real)"
  "(7 / 100 :: real) < sqrt (9 / 1000)"
  "sqrt (9 / 5000) < (7 / 100 :: real)"
proof -
  show "sqrt (1 / 1000) < (7 / 100 :: real)"
    by (rule real_less_lsqrt) (simp_all add: power2_eq_square)
  show "(7 / 100 :: real) < sqrt (9 / 1000)"
    by (rule real_less_rsqrt) (simp add: power2_eq_square)
  show "sqrt (9 / 5000) < (7 / 100 :: real)"
    by (rule real_less_lsqrt) (simp_all add: power2_eq_square)
qed

lemma demo_reward_near_goal:
  "target_to_obj env_demo (0, 0.84, 0.03) < TARGET_RADIUS"
  "in_place tolerance_hard env_demo (0, 0.84, 0.03) = 1"
proof -
  show w: "target_to_obj env_demo (0, 0.84, 0.03) < TARGET_RADIUS"
    using sqrt_demo_bounds(1)
    by (simp add: target_to_obj_weighted env_demo_def TARGET_RADIUS_def power2_eq_square)
  have "0 \<le> target_to_obj env_demo (0, 0.84, 0.03)"
    by (simp add: target_to_obj_weighted)
  with w have "in_place_tolerance tolerance_hard env_demo (0, 0.84, 0.03) = 1"
    by (simp add: in_place_tolerance_def tolerance_hard_def)
  moreover have "\<not> past_goal_line env_demo (0, 0.84, 0.03)"
    by (simp add: past_goal_line_def env_demo_def)
  ultimately show "in_place tolerance_hard env_demo (0, 0.84, 0.03) = 1"
    by (simp add: in_place_def)
qed

lemma demo_reward_beside_goal:
  "\<not> target_to_obj env_demo (0.03, 0.85, 0.03) < TARGET_RADIUS"
  "in_place tolerance_hard env_demo (0.03, 0.85, 0.03) = 0"
  "linalg_norm (vsub (0.03, 0.85, 0.03) (priv_target_pos env_demo)) < TARGET_RADIUS"
proof -
  have w': "TARGET_RADIUS < target_to_obj env_demo (0.03, 0.85, 0.03)"
    using sqrt_demo_bounds(2)
    by (simp add: target_to_obj_weighted env_demo_def TARGET_RADIUS_def power2_eq_square)
  then show w: "\<not> target_to_obj env_demo (0.03, 0.85, 0.03) < TARGET_RADIUS"
    by simp
  from w' have "in_place_tolerance tolerance_hard env_demo (0.03, 0.85, 0.03) = 0"
    by (simp add: in_place_tolerance_def tolerance_hard_def)
  moreover have "\<not> past_goal_line env_demo (0.03, 0.85, 0.03)"
    by (simp add: past_goal_line_def env_demo_def)
  ultimately show "in_place tolerance_hard env_demo (0.03, 0.85, 0.03) = 0"
    by (simp add: in_place_def)
  show "linalg_norm (vsub (0.03, 0.85, 0.03) (priv_target_pos env_demo)) < TARGET_RADIUS"
    using sqrt_demo_bounds(3)
    by (simp add: env_demo_def TARGET_RADIUS_def power2_eq_square)
qed

text \<open>
  Claim C1 as stated fails: with the ball 0.03 beside the goal centre and at height 0.03 the
  unweighted distance to the target is below \<open>TARGET_RADIUS\<close>, the weighted one is not, and
  the reward is the shaped value (here 0), not 10.
\<close>

theorem compute_reward_true_distance_counterexample:
  "compute_reward tolerance_hard env_demo action_demo (obs_with_ball (0.03, 0.85, 0.03)) =
     Inr (0,
          linalg_norm (vsub (0.03, 0.85, 0.03) (tcp_center env_demo)),
          1,
          linalg_norm (vsub (0.03, 0.85, 0.03) (priv_target_pos env_demo)),
          0,
          0)
   \<and> linalg_norm (vsub (0.03, 0.85, 0.03) (priv_target_pos env_demo)) < TARGET_RADIUS"
proof -
  have g: "caging_and_gripping tolerance_hard env_demo (0.03, 0.85, 0.03) OBJ_RADIUS = 0"
    by (rule caging_demo_far) simp
  have o: "obs_with_ball (0.03, 0.85, 0.03) ! 3 = 1"
    by (simp add: obs_with_ball_def)
  show ?thesis
    unfolding compute_reward_returns[OF tolerance_contract_hard action_demo_nonempty
        obs_with_ball_length] obs_with_ball_obj g o demo_reward_beside_goal(2)
    using demo_reward_beside_goal(1,3) by simp
qed

theorem compute_reward_weighted_override_witness:
  "tolerance_contract tolerance_hard \<and> action_demo \<noteq> []
   \<and> 7 \<le> length (obs_with_ball (0, 0.84, 0.03))
   \<and> (\<exists>tcp_to_obj tcp_opened true_dist object_grasped in_place_v.
         compute_reward tolerance_hard env_demo action_demo (obs_with_ball (0, 0.84, 0.03)) =
           Inr (10, tcp_to_obj, tcp_opened, true_dist, object_grasped, in_place_v)
         \<and> true_dist < 0.07)"
proof -
  note h = tolerance_contract_hard action_demo_nonempty obs_with_ball_length[of "(0, 0.84, 0.03)"]
  have w: "sqrt ((3 * (obs_with_ball (0, 0.84, 0.03) ! 4 - ix0 (priv_target_pos env_demo)))\<^sup>2
             + (obs_with_ball (0, 0.84, 0.03) ! 5 - ix1 (priv_target_pos env_demo))\<^sup>2
             + (obs_with_ball (0, 0.84, 0.03) ! 6 - ix2 (priv_target_pos env_demo))\<^sup>2) < 0.07"
    using sqrt_demo_bounds(1)
    by (simp add: obs_with_ball_def env_demo_def power2_eq_square)
  from compute_reward_weighted_override[OF h, of env_demo] w
  show ?thesis using h by auto
qed

lemma sqrt_demo_bounds2:
  "(7 / 100 :: real) < sqrt (1817 / 5000)"
  "(7 / 100 :: real) < sqrt (109 / 2500)"
  "sqrt (9 / 10000) \<le> (3 / 100 :: real)"
proof -
  show "(7 / 100 :: real) < sqrt (1817 / 5000)"
    by (rule real_less_rsqrt) (simp add: power2_eq_square)
  show "(7 / 100 :: real) < sqrt (109 / 2500)"
    by (rule real_less_rsqrt) (simp add: power2_eq_square)
  show "sqrt (9 / 10000) \<le> (3 / 100 :: real)"
    by (rule real_le_lsqrt) (simp_all add: power2_eq_square)
qed

theorem compute_reward_in_place_norms_witness:
  "tolerance_contract tolerance_hard \<and> action_demo \<noteq> []
   \<and> 7 \<le> length (obs_with_ball (0, 0.84, 0.03))
   \<and> (\<exists>reward tcp_to_obj tcp_opened true_dist object_grasped in_place_v.
         compute_reward tolerance_hard env_demo action_demo (obs_with_ball (0, 0.84, 0.03)) =
           Inr (reward, tcp_to_obj, tcp_opened, true_dist, object_grasped, in_place_v)
         \<and> tcp_to_obj = sqrt (197 / 2500)
         \<and> in_place_v = 1)"
proof -
  note h = tolerance_contract_hard action_demo_nonempty obs_with_ball_length[of "(0, 0.84, 0.03)"]
  have np: "\<not> past_goal_line env_demo (0, 0.84, 0.03)"
    by (simp add: past_goal_line_def env_demo_def)
  have ip: "in_place_tolerance tolerance_hard env_demo (0, 0.84, 0.03) = 1"
    using demo_reward_near_goal(2) np by (simp add: in_place_def)
  have t: "sqrt ((obs_with_ball (0, 0.84, 0.03) ! 4 - ix0 (tcp_center env_demo))\<^sup>2
              + (obs_with_ball (0, 0.84, 0.03) ! 5 - ix1 (tcp_center env_demo))\<^sup>2
              + (obs_with_ball (0, 0.84, 0.03) ! 6 - ix2 (tcp_center env_demo))\<^sup>2)
           = sqrt (197 / 2500)"
    by (simp add: obs_with_ball_def env_demo_def power2_eq_square)
  from compute_reward_in_place_norms[OF h, of env_demo]
  show ?thesis
    unfolding obs_with_ball_obj t using h np ip by auto
qed

theorem compute_reward_goal_line_override_witness:
  "tolerance_contract tolerance_hard \<and> action_demo \<noteq> []
   \<and> 7 \<le> length (obs_with_ball (0.2, 0.8, 0.03))
   \<and> goal_line env_demo = 0.75
   \<and> (\<exists>reward tcp_to_obj tcp_opened true_dist object_grasped in_place_v.
         compute_reward tolerance_hard env_demo action_demo (obs_with_ball (0.2, 0.8, 0.03)) =
           Inr (reward, tcp_to_obj, tcp_opened, true_dist, object_grasped, in_place_v)
         \<and> in_place_v = 0)"
proof -
  note h = tolerance_contract_hard action_demo_nonempty obs_with_ball_length[of "(0.2, 0.8, 0.03)"]
  have gl: "goal_line env_demo = 0.75"
    by (simp add: goal_line_def env_demo_def)
  have "TARGET_RADIUS < target_to_obj env_demo (0.2, 0.8, 0.03)"
    using sqrt_demo_bounds2(1)
    by (simp add: target_to_obj_weighted env_demo_def TARGET_RADIUS_def power2_eq_square)
  then have ip: "in_place_tolerance tolerance_hard env_demo (0.2, 0.8, 0.03) = 0"
    by (simp add: in_place_tolerance_def tolerance_hard_def)
  have c: "obs_with_ball (0.2, 0.8, 0.03) ! 5 > goal_line env_demo
           \<and> \<bar>obs_with_ball (0.2, 0.8, 0.03) ! 4 - ix0 (priv_target_pos env_demo)\<bar> > 0.10"
    by (simp add: gl) (simp add: obs_with_ball_def env_demo_def)
  from compute_reward_goal_line_override[OF h, of env_demo]
  show ?thesis
    unfolding obs_with_ball_obj ip using h c gl
    by (auto simp: obs_with_ball_def)
qed

text \<open>
  Claim C6 fails on the code. In the state \<open>env_demo\<close> the gripper does not touch the ball;
  with the gripper open and the ball 0.03 above its initial height, \<^verbatim>\<open>evaluate_state\<close>
  returns \<open>grasp_success = 1\<close>, where the claim requires contact. The flags \<open>success\<close> and
  \<open>near_object\<close> are as claimed (here 0: the ball is 0.2 from the target and 0.09 from the
  end effector).
\<close>

theorem evaluate_state_grasp_success_without_contact:
  "\<not> in_contact env_demo
   \<and> obs_with_ball (0, 0.65, 0.06) ! 3 = 1
   \<and> ix2 (obj_init_pos env_demo) = 0.03
   \<and> (\<exists>reward inf.
         evaluate_state tolerance_hard env_demo (obs_with_ball (0, 0.65, 0.06)) action_demo =
           Inr (reward, inf)
         \<and> grasp_success inf = 1 \<and> success inf = 0 \<and> near_object inf = 0)"
proof -
  note h = tolerance_contract_hard action_demo_nonempty obs_with_ball_length[of "(0, 0.65, 0.06)"]
  have ts: "task_is_set env_demo"
    by (simp add: env_demo_def)
  have s: "\<not> sqrt ((obs_with_ball (0, 0.65, 0.06) ! 4 - ix0 (priv_target_pos env_demo))\<^sup>2
                + (obs_with_ball (0, 0.65, 0.06) ! 5 - ix1 (priv_target_pos env_demo))\<^sup>2
                + (obs_with_ball (0, 0.65, 0.06) ! 6 - ix2 (priv_target_pos env_demo))\<^sup>2)
             \<le> 0.07"
    using sqrt_demo_bounds2(2)
    by (simp add: obs_with_ball_def env_demo_def power2_eq_square)
  have "(3 / 100 :: real) < sqrt (41 / 5000)"
    by (rule real_less_rsqrt) (simp add: power2_eq_square)
  then have n: "\<not> sqrt ((obs_with_ball (0, 0.65, 0.06) ! 4 - ix0 (tcp_center env_demo))\<^sup>2
              + (obs_with_ball (0, 0.65, 0.06) ! 5 - ix1 (tcp_center env_demo))\<^sup>2
              + (obs_with_ball (0, 0.65, 0.06) ! 6 - ix2 (tcp_center env_demo))\<^sup>2)
           \<le> 0.03"
    by (simp add: obs_with_ball_def env_demo_def power2_eq_square)
  have g: "obs_with_ball (0, 0.65, 0.06) ! 3 > 0
           \<and> obs_with_ball (0, 0.65, 0.06) ! 6 - ix2 (obj_init_pos env_demo) > 0.02"
    by (simp add: obs_with_ball_def env_demo_def)
  from evaluate_state_flags[OF h ts]
  obtain reward inf where
    e: "evaluate_state tolerance_hard env_demo (obs_with_ball (0, 0.65, 0.06)) action_demo =
          Inr (reward, inf)"
    and f: "success inf = 1 \<or> success inf = 0"
      "near_object inf = 1 \<or> near_object inf = 0"
      "success inf = 1 \<longleftrightarrow>
         sqrt ((obs_with_ball (0, 0.65, 0.06) ! 4 - ix0 (priv_target_pos env_demo))\<^sup>2
                + (obs_with_ball (0, 0.65, 0.06) ! 5 - ix1 (priv_target_pos env_demo))\<^sup>2
                + (obs_with_ball (0, 0.65, 0.06) ! 6 - ix2 (priv_target_pos env_demo))\<^sup>2)
             \<le> 0.07"
      "near_object inf = 1 \<longleftrightarrow>
         sqrt ((obs_with_ball (0, 0.65, 0.06) ! 4 - ix0 (tcp_center env_demo))\<^sup>2
              + (obs_with_ball (0, 0.65, 0.06) ! 5 - ix1 (tcp_center env_demo))\<^sup>2
              + (obs_with_ball (0, 0.65, 0.06) ! 6 - ix2 (tcp_center env_demo))\<^sup>2)
           \<le> 0.03"
      "grasp_success inf = 1 \<longleftrightarrow>
         obs_with_ball (0, 0.65, 0.06) ! 3 > 0
           \<and> obs_with_ball (0, 0.65, 0.06) ! 6 - ix2 (obj_init_pos env_demo) > 0.02"
    by blast
  from f s n g have "grasp_success inf = 1 \<and> success inf = 0 \<and> near_object inf = 0"
    by blast
  with e have x: "\<exists>reward inf.
         evaluate_state tolerance_hard env_demo (obs_with_ball (0, 0.65, 0.06)) action_demo =
           Inr (reward, inf)
         \<and> grasp_success inf = 1 \<and> success inf = 0 \<and> near_object inf = 0"
    by blast
  have "\<not> in_contact env_demo" "obs_with_ball (0, 0.65, 0.06) ! 3 = 1"
    "ix2 (obj_init_pos env_demo) = 0.03"
    by (simp_all add: env_demo_def obs_with_ball_def)
  with x show ?thesis by blast
qed

end
